theory Spec2Isabelle
  imports
    Complex_Main
    "HOL-Library.Char_ord"
    "HOL-Library.List_Lexorder"
    "HOL-Library.Product_Lexorder"
    "HOL-Library.Sublist"
begin

section \<open>Exceptions, dates, decimals and strings\<close>

text \<open>
  Every exception class the modelled code raises or lets through. The three classes
  \<open>ExchangeRateAdapterError\<close>, \<open>ProviderUnavailableError\<close> and \<open>RateNotFoundError\<close>
  form the adapter hierarchy of \<^verbatim>\<open>adapters/base.py\<close> (the last two are subclasses of
  the first); the others are built-in or Django exceptions. An exception value carries
  its class and its message (\<open>str(e)\<close>).
\<close>

datatype exn_class =
    ExchangeRateAdapterError
  | ProviderUnavailableError
  | RateNotFoundError
  | ValueError
  | TypeError
  | KeyError
  | AttributeError
  | UnboundLocalError
  | OverflowError
  | InvalidOperation
  | ImportError
  | DoesNotExist
  | MultipleObjectsReturned
  | DataError
  | JSONDecodeError

datatype exn = Exn (exn_class: exn_class) (message: string)

text \<open>\<open>isinstance(e, ExchangeRateAdapterError)\<close>.\<close>

definition is_adapter_error :: "exn \<Rightarrow> bool" where
  "is_adapter_error e =
     (exn_class e = ExchangeRateAdapterError \<or> exn_class e = ProviderUnavailableError
      \<or> exn_class e = RateNotFoundError)"

text \<open>
  A \<open>datetime.date\<close> is represented by its proleptic Gregorian ordinal
  (\<open>date.toordinal()\<close>): comparison of dates is comparison of ordinals and
  \<open>d + timedelta(days=1)\<close> is the successor, which raises \<open>OverflowError\<close> beyond
  \<open>date.max\<close> (9999-12-31, ordinal 3652059). The fields \<open>year\<close>, \<open>month\<close>, \<open>day\<close>
  are computed as \<open>datetime._ord2ymd\<close> does.
\<close>

type_synonym date = int

definition MAXORDINAL :: int where
  "MAXORDINAL = 3652059"

definition add_day :: "date \<Rightarrow> exn + date" where
  "add_day d = (if d + 1 > MAXORDINAL then Inl (Exn OverflowError ''date value out of range'')
                else Inr (d + 1))"

definition DAYS_IN_MONTH :: "int list" where
  "DAYS_IN_MONTH = [-1, 31, 28, 31, 30, 31, 30, 31, 31, 30, 31, 30, 31]"

definition DAYS_BEFORE_MONTH :: "int list" where
  "DAYS_BEFORE_MONTH = [-1, 0, 31, 59, 90, 120, 151, 181, 212, 243, 273, 304, 334]"

definition ord2ymd :: "date \<Rightarrow> int \<times> int \<times> int" where
  "ord2ymd n0 =
     (let n = n0 - 1;
          n400 = n div 146097; n = n mod 146097;
          year = n400 * 400 + 1;
          n100 = n div 36524; n = n mod 36524;
          n4 = n div 1461; n = n mod 1461;
          n1 = n div 365; n = n mod 365;
          year = year + n100 * 100 + n4 * 4 + n1
      in if n1 = 4 \<or> n100 = 4 then (year - 1, 12, 31)
         else
           let leapyear = (n1 = 3 \<and> (n4 \<noteq> 24 \<or> n100 = 3));
               month = (n + 50) div 32;
               preceding = DAYS_BEFORE_MONTH ! nat month
                           + (if month > 2 \<and> leapyear then 1 else 0)
           in if preceding > n
              then let month = month - 1;
                       preceding = preceding - (DAYS_IN_MONTH ! nat month
                                     + (if month = 2 \<and> leapyear then 1 else 0))
                   in (year, month, n - preceding + 1)
              else (year, month, n - preceding + 1))"

definition year :: "date \<Rightarrow> int" where
  "year d = fst (ord2ymd d)"

definition month :: "date \<Rightarrow> int" where
  "month d = fst (snd (ord2ymd d))"

definition day :: "date \<Rightarrow> int" where
  "day d = snd (snd (ord2ymd d))"

text \<open>
  \<open>Decimal\<close> values and Python floats are both represented by the rational number
  they denote, with exact arithmetic: the binary rounding of floats and the 28-digit
  rounding of the decimal context in \<open>+\<close> and \<open>*\<close> are not modelled. What is
  modelled of the decimal context is that \<open>round(x, 6)\<close> (\<open>Decimal.quantize\<close> with
  \<open>ROUND_HALF_EVEN\<close>) raises \<open>InvalidOperation\<close> when the quantized coefficient
  has more than 28 digits.
\<close>

type_synonym decimal = rat

definition round_half_even :: "rat \<Rightarrow> int" where
  "round_half_even x =
     (let f = \<lfloor>x\<rfloor>; r = x - of_int f
      in if r < 1 / 2 then f else if r > 1 / 2 then f + 1
         else if even f then f else f + 1)"

definition decimal_round6 :: "decimal \<Rightarrow> exn + decimal" where
  "decimal_round6 x =
     (let q = round_half_even (x * 1000000)
      in if \<bar>q\<bar> \<ge> 10 ^ 28 then Inl (Exn InvalidOperation ''quantize result has too many digits'')
         else Inr (of_int q / 1000000))"

text \<open>\<open>round(x, 6)\<close> on a float, which never raises for a finite float.\<close>

definition float_round6 :: "rat \<Rightarrow> rat" where
  "float_round6 x = of_int (round_half_even (x * 1000000)) / 1000000"

text \<open>
  Strings are byte strings; \<open>str.upper()\<close> is modelled on ASCII letters and leaves
  every other character unchanged.
\<close>

definition upper_char :: "char \<Rightarrow> char" where
  "upper_char c =
     (case map_of (zip ''abcdefghijklmnopqrstuvwxyz'' ''ABCDEFGHIJKLMNOPQRSTUVWXYZ'') c of
        Some u \<Rightarrow> u
      | None \<Rightarrow> c)"

definition upper :: "string \<Rightarrow> string" where
  "upper s = map upper_char s"

section \<open>The provider contract (adapters/base.py)\<close>

record ExchangeRateResult =
  source_currency :: string
  exchanged_currency :: string
  valuation_date :: date
  rate_value :: decimal
  provider_name :: string

section \<open>The interpreter and its surroundings\<close>

text \<open>
  JSON values as \<open>response.json()\<close> returns them; a number carries the value that
  \<open>Decimal(str(v))\<close> gives it, and a dictionary is the list of its items (a lookup
  takes the first item of a key).
\<close>

datatype json =
    JNull
  | JBool bool
  | JNum rat
  | JStr string
  | JList "json list"
  | JDict "(string \<times> json) list"

text \<open>
  The three requests the remote adapter sends. The query parameters are kept as typed
  values (the source formats dates with \<open>isoformat()\<close>).
\<close>

datatype request =
    Latest string
  | Historical string date
  | Timeseries string date date string

text \<open>What \<open>httpx\<close> does with a request.\<close>

datatype http_outcome =
    Timeout
  | HttpStatus nat
  | RequestError
  | BadBody
  | Body json

text \<open>
  The state outside the adapters that the code reads and writes:
  \<^item> \<open>rng\<close>: the state of the module-level generator of \<open>random\<close>. The generator itself
    (the Mersenne Twister of the standard library) is not part of this repository: it
    is given by \<open>gen_seed\<close> (the state after \<open>random.seed(n)\<close>) and \<open>gen_random\<close>
    (\<open>random.random()\<close>: the value drawn, in \<open>[0, 1)\<close>, and the next state);
  \<^item> \<open>entropy\<close>, \<open>entropy_pos\<close>: the states that successive \<open>random.seed()\<close> calls
    install from the operating system's entropy;
  \<^item> \<open>parse_decimal\<close>: \<open>Decimal(s)\<close> for a string \<open>s\<close>, \<open>None\<close> where it raises
    \<open>InvalidOperation\<close>, and \<open>fromisoformat\<close>: \<open>date.fromisoformat(s)\<close>, \<open>None\<close> where
    it raises \<open>ValueError\<close>; both are standard-library parsers, not part of this
    repository;
  \<^item> \<open>today\<close>: \<open>date.today()\<close>;
  \<^item> \<open>cache\<close>: Django's process-local cache. The key
    \<open>f"currencybeacon:{source}:{target}:{date.isoformat()}"\<close> is represented by
    its three components; expiry of entries is not modelled;
  \<^item> \<open>http\<close>: what the upstream service answers to each request, and \<open>sent\<close>: the
    requests sent so far, oldest first.
\<close>

record world =
  gen_seed :: "int \<Rightarrow> nat"
  gen_random :: "nat \<Rightarrow> rat \<times> nat"
  rng :: nat
  entropy :: "nat \<Rightarrow> nat"
  entropy_pos :: nat
  parse_decimal :: "string \<Rightarrow> decimal option"
  fromisoformat :: "string \<Rightarrow> date option"
  today :: date
  cache :: "string \<times> string \<times> date \<Rightarrow> ExchangeRateResult option"
  http :: "request \<Rightarrow> http_outcome"
  sent :: "request list"

text \<open>\<open>random.seed(n)\<close>, \<open>random.seed()\<close> and \<open>random.uniform(a, b)\<close>.\<close>

definition random_seed :: "int \<Rightarrow> world \<Rightarrow> world" where
  "random_seed n w = w\<lparr>rng := gen_seed w n\<rparr>"

definition random_reseed :: "world \<Rightarrow> world" where
  "random_reseed w = w\<lparr>rng := entropy w (entropy_pos w), entropy_pos := Suc (entropy_pos w)\<rparr>"

definition random_uniform :: "rat \<Rightarrow> rat \<Rightarrow> world \<Rightarrow> rat \<times> world" where
  "random_uniform a b w =
     (let (u, g) = gen_random w (rng w) in (a + (b - a) * u, w\<lparr>rng := g\<rparr>))"

section \<open>The synthetic generator (adapters/mock.py)\<close>

definition DEFAULT_BASE_RATES :: "((string \<times> string) \<times> decimal) list" where
  "DEFAULT_BASE_RATES =
     [((''EUR'', ''USD''), 108 / 100),
      ((''EUR'', ''GBP''), 86 / 100),
      ((''EUR'', ''CHF''), 94 / 100),
      ((''USD'', ''EUR''), 93 / 100),
      ((''USD'', ''GBP''), 79 / 100),
      ((''USD'', ''CHF''), 87 / 100),
      ((''GBP'', ''EUR''), 116 / 100),
      ((''GBP'', ''USD''), 127 / 100),
      ((''GBP'', ''CHF''), 110 / 100),
      ((''CHF'', ''EUR''), 106 / 100),
      ((''CHF'', ''USD''), 115 / 100),
      ((''CHF'', ''GBP''), 91 / 100)]"

text \<open>
  The keys of the configuration dictionary that \<open>MockAdapter.__init__\<close> reads. The
  table of base rates is a dictionary, kept as the list of its items.
\<close>

record mock_config =
  cfg_base_rates :: "((string \<times> string) \<times> decimal) list option"
  cfg_volatility :: "rat option"
  cfg_seed :: "int option"

record MockAdapter =
  base_rates :: "((string \<times> string) \<times> decimal) list"
  volatility :: rat

definition Mock_init :: "mock_config \<Rightarrow> world \<Rightarrow> MockAdapter \<times> world" where
  "Mock_init config w =
     (let a = \<lparr>base_rates = (case cfg_base_rates config of None \<Rightarrow> DEFAULT_BASE_RATES
                                | Some t \<Rightarrow> t),
               volatility = (case cfg_volatility config of None \<Rightarrow> 5 / 100 | Some v \<Rightarrow> v)\<rparr>
      in case cfg_seed config of
           None \<Rightarrow> (a, w)
         | Some seed \<Rightarrow> (a, random_seed seed w))"

definition Mock_name :: string where
  "Mock_name = ''Mock Provider''"

text \<open>Truth value of an optional \<open>Decimal\<close>: \<open>None\<close> and zero are false.\<close>

definition truthy_decimal :: "decimal option \<Rightarrow> bool" where
  "truthy_decimal x = (case x of None \<Rightarrow> False | Some r \<Rightarrow> r \<noteq> 0)"

definition Mock_random_base_rate :: "world \<Rightarrow> decimal \<times> world" where
  "Mock_random_base_rate w =
     (let (x, w') = random_uniform (1 / 2) 2 w in (float_round6 x, w'))"

definition Mock_get_base_rate ::
  "MockAdapter \<Rightarrow> string \<Rightarrow> string \<Rightarrow> world \<Rightarrow> decimal \<times> world" where
  "Mock_get_base_rate a source target w =
     (let key = (upper source, upper target)
      in case map_of (base_rates a) key of
           Some r \<Rightarrow> (r, w)
         | None \<Rightarrow>
             if upper source \<noteq> ''EUR'' then
               (let source_to_eur = map_of (base_rates a) (upper source, ''EUR'');
                    eur_to_target = map_of (base_rates a) (''EUR'', upper target)
                in if truthy_decimal source_to_eur \<and> truthy_decimal eur_to_target
                   then (the source_to_eur * the eur_to_target, w)
                   else Mock_random_base_rate w)
             else Mock_random_base_rate w)"

definition date_factor :: "date \<Rightarrow> int" where
  "date_factor d = year d * 10000 + month d * 100 + day d"

definition Mock_apply_variation ::
  "MockAdapter \<Rightarrow> decimal \<Rightarrow> date \<Rightarrow> world \<Rightarrow> (exn + decimal) \<times> world" where
  "Mock_apply_variation a base_rate d w =
     (let w1 = random_seed (date_factor d) w;
          (variation, w2) = random_uniform (- volatility a) (volatility a) w1;
          varied_rate = base_rate * (1 + variation);
          w3 = random_reseed w2
      in (decimal_round6 varied_rate, w3))"

definition Mock_get_exchange_rate ::
  "MockAdapter \<Rightarrow> string \<Rightarrow> string \<Rightarrow> date \<Rightarrow> world \<Rightarrow> (exn + ExchangeRateResult) \<times> world"
where
  "Mock_get_exchange_rate a source target d w =
     (let (r, w') =
            (if upper source = upper target then (Inr 1, w)
             else let (base_rate, w1) = Mock_get_base_rate a source target w
                  in Mock_apply_variation a base_rate d w1)
      in case r of
           Inl e \<Rightarrow> (Inl e, w')
         | Inr rate \<Rightarrow>
             (Inr \<lparr>source_currency = upper source,
                   exchanged_currency = upper target,
                   valuation_date = d,
                   rate_value = rate,
                   provider_name = Mock_name\<rparr>, w'))"

fun Mock_rates_loop ::
  "MockAdapter \<Rightarrow> string \<Rightarrow> date \<Rightarrow> string list \<Rightarrow> ExchangeRateResult list \<Rightarrow> world
   \<Rightarrow> (exn + ExchangeRateResult list) \<times> world"
where
  "Mock_rates_loop a source d [] results w = (Inr results, w)"
| "Mock_rates_loop a source d (target # rest) results w =
     (if upper target \<noteq> upper source then
        (case Mock_get_exchange_rate a source target d w of
           (Inl e, w') \<Rightarrow> (Inl e, w')
         | (Inr q, w') \<Rightarrow> Mock_rates_loop a source d rest (results @ [q]) w')
      else Mock_rates_loop a source d rest results w)"

definition Mock_get_exchange_rates_for_date ::
  "MockAdapter \<Rightarrow> string \<Rightarrow> date \<Rightarrow> string list option \<Rightarrow> world
   \<Rightarrow> (exn + ExchangeRateResult list) \<times> world"
where
  "Mock_get_exchange_rates_for_date a source d target_currencies w =
     (let targets = (case target_currencies of
                       None \<Rightarrow> [''EUR'', ''USD'', ''GBP'', ''CHF'']
                     | Some ts \<Rightarrow> ts)
      in Mock_rates_loop a source d targets [] w)"

function Mock_historical_loop ::
  "MockAdapter \<Rightarrow> string \<Rightarrow> string \<Rightarrow> date \<Rightarrow> ExchangeRateResult list \<Rightarrow> date \<Rightarrow> world
   \<Rightarrow> (exn + ExchangeRateResult list) \<times> world"
where
  "Mock_historical_loop a source target end_date results current_date w =
     (if current_date \<le> end_date then
        (case Mock_get_exchange_rate a source target current_date w of
           (Inl e, w') \<Rightarrow> (Inl e, w')
         | (Inr q, w') \<Rightarrow>
             (case add_day current_date of
                Inl e \<Rightarrow> (Inl e, w')
              | Inr next_date \<Rightarrow>
                  Mock_historical_loop a source target end_date (results @ [q]) next_date w'))
      else (Inr results, w))"
  by pat_completeness auto
termination
  by (relation "measure (\<lambda>(a, s, t, e, rs, c, w). nat (e + 1 - c))")
     (auto simp: add_day_def split: if_splits)

definition Mock_get_historical_rates ::
  "MockAdapter \<Rightarrow> string \<Rightarrow> string \<Rightarrow> date \<Rightarrow> date \<Rightarrow> world
   \<Rightarrow> (exn + ExchangeRateResult list) \<times> world"
where
  "Mock_get_historical_rates a source target start_date end_date w =
     Mock_historical_loop a source target end_date [] start_date w"

text \<open>
  The pairs for which \<open>get_exchange_rate\<close> does not reach the random base rate: equal
  codes, a direct entry of the table, or both entries of the path over EUR.
\<close>

definition Mock_table_resolves :: "MockAdapter \<Rightarrow> string \<Rightarrow> string \<Rightarrow> bool" where
  "Mock_table_resolves a source target =
     (upper source = upper target
      \<or> map_of (base_rates a) (upper source, upper target) \<noteq> None
      \<or> (upper source \<noteq> ''EUR''
          \<and> truthy_decimal (map_of (base_rates a) (upper source, ''EUR''))
          \<and> truthy_decimal (map_of (base_rates a) (''EUR'', upper target))))"

text \<open>
  Two states of the surroundings run the same generator algorithm; a generator draws
  from \<open>[0, 1)\<close>; a configuration has rates of at most \<open>10^9\<close> and a volatility of at
  most 1 in absolute value.
\<close>

definition same_generator :: "world \<Rightarrow> world \<Rightarrow> bool" where
  "same_generator w1 w2 = (gen_seed w1 = gen_seed w2 \<and> gen_random w1 = gen_random w2)"

definition unit_generator :: "world \<Rightarrow> bool" where
  "unit_generator w = (\<forall>g. 0 \<le> fst (gen_random w g) \<and> fst (gen_random w g) < 1)"

definition bounded_config :: "MockAdapter \<Rightarrow> bool" where
  "bounded_config a =
     ((\<forall>kr \<in> set (base_rates a). \<bar>snd kr\<bar> \<le> 10 ^ 9) \<and> \<bar>volatility a\<bar> \<le> 1)"

section \<open>The remote adapter (adapters/currencybeacon.py)\<close>

subsection \<open>Operations on decoded JSON\<close>

text \<open>\<open>bool(v)\<close>.\<close>

fun json_truthy :: "json \<Rightarrow> bool" where
  "json_truthy JNull = False"
| "json_truthy (JBool b) = b"
| "json_truthy (JNum r) = (r \<noteq> 0)"
| "json_truthy (JStr s) = (s \<noteq> [])"
| "json_truthy (JList xs) = (xs \<noteq> [])"
| "json_truthy (JDict kvs) = (kvs \<noteq> [])"

text \<open>
  \<open>key in v\<close>: a key test on a dictionary, a membership test on a list, a substring
  test on a string, and \<open>TypeError\<close> on the values that are not containers.
\<close>

fun json_contains :: "string \<Rightarrow> json \<Rightarrow> exn + bool" where
  "json_contains k (JDict kvs) = Inr (map_of kvs k \<noteq> None)"
| "json_contains k (JList xs) = Inr (JStr k \<in> set xs)"
| "json_contains k (JStr s) = Inr (sublist k s)"
| "json_contains k v = Inl (Exn TypeError ''argument is not iterable'')"

text \<open>\<open>v.get(key, default)\<close>: only a dictionary has the method.\<close>

fun json_get :: "json \<Rightarrow> string \<Rightarrow> json \<Rightarrow> exn + json" where
  "json_get (JDict kvs) k dflt = Inr (case map_of kvs k of Some v \<Rightarrow> v | None \<Rightarrow> dflt)"
| "json_get v k dflt = Inl (Exn AttributeError ''object has no attribute get'')"

text \<open>\<open>v[key]\<close> with a string key.\<close>

fun json_index :: "json \<Rightarrow> string \<Rightarrow> exn + json" where
  "json_index (JDict kvs) k =
     (case map_of kvs k of Some v \<Rightarrow> Inr v | None \<Rightarrow> Inl (Exn KeyError k))"
| "json_index v k = Inl (Exn TypeError ''indices must be integers'')"

text \<open>\<open>Decimal(str(v))\<close>.\<close>

fun json_to_decimal :: "world \<Rightarrow> json \<Rightarrow> exn + decimal" where
  "json_to_decimal w (JNum r) = Inr r"
| "json_to_decimal w (JStr s) =
     (case parse_decimal w s of
        Some r \<Rightarrow> Inr r
      | None \<Rightarrow> Inl (Exn InvalidOperation ''ConversionSyntax''))"
| "json_to_decimal w v = Inl (Exn InvalidOperation ''ConversionSyntax'')"

subsection \<open>Requests\<close>

definition Beacon_name :: string where
  "Beacon_name = ''CurrencyBeacon''"

text \<open>
  \<open>_make_request\<close>. Texts that the source interpolates into a message (the transport
  error, the status code, the payload's \<open>error\<close> field) are left out of the message.
  A body that does not decode makes \<open>response.json()\<close> raise, which no handler of
  this function catches; nor does one catch the \<open>TypeError\<close> of \<open>data['error']\<close>
  when the body that contains \<open>'error'\<close> is a list or a string.
\<close>

definition Beacon_make_request :: "request \<Rightarrow> world \<Rightarrow> (exn + json) \<times> world" where
  "Beacon_make_request req w =
     (let w' = w\<lparr>sent := sent w @ [req]\<rparr>
      in case http w req of
           Timeout \<Rightarrow> (Inl (Exn ProviderUnavailableError ''CurrencyBeacon request timed out''), w')
         | HttpStatus status_code \<Rightarrow>
             (if status_code = 401 then
                (Inl (Exn ProviderUnavailableError
                   ''CurrencyBeacon authentication failed: Invalid API key''), w')
              else if status_code = 403 then
                (Inl (Exn ProviderUnavailableError
                   (''CurrencyBeacon access forbidden: Your plan does not support this endpoint. ''
                    @ ''The /timeseries endpoint requires a Startup or Pro plan.'')), w')
              else if status_code = 429 then
                (Inl (Exn ProviderUnavailableError
                   (''CurrencyBeacon rate limit exceeded. ''
                    @ ''Please upgrade your plan or reduce request frequency.'')), w')
              else (Inl (Exn ProviderUnavailableError ''CurrencyBeacon HTTP error''), w'))
         | RequestError \<Rightarrow> (Inl (Exn ProviderUnavailableError ''CurrencyBeacon request failed''), w')
         | BadBody \<Rightarrow> (Inl (Exn JSONDecodeError ''Expecting value''), w')
         | Body data \<Rightarrow>
             (case json_contains ''error'' data of
                Inl e \<Rightarrow> (Inl e, w')
              | Inr True \<Rightarrow>
                  (case json_index data ''error'' of
                     Inl e \<Rightarrow> (Inl e, w')
                   | Inr v \<Rightarrow>
                       (Inl (Exn ProviderUnavailableError ''CurrencyBeacon API error''), w'))
              | Inr False \<Rightarrow> (Inr data, w')))"

text \<open>
  The lookup of the rates mapping shared by the single-date paths: the top-level
  \<open>rates\<close> field, or \<open>response.rates\<close> when that one is missing or empty.
\<close>

definition Beacon_find_rates :: "json \<Rightarrow> exn + json" where
  "Beacon_find_rates data =
     (case json_get data ''rates'' (JDict []) of
        Inl e \<Rightarrow> Inl e
      | Inr rates \<Rightarrow>
          if \<not> json_truthy rates then
            (case json_get data ''response'' (JDict []) of
               Inl e \<Rightarrow> Inl e
             | Inr (JDict kvs) \<Rightarrow> json_get (JDict kvs) ''rates'' (JDict [])
             | Inr response \<Rightarrow> Inr rates)
          else Inr rates)"

subsection \<open>Single-date lookup\<close>

text \<open>
  The handlers that close \<open>get_exchange_rate\<close>: the two contract errors pass, every
  other exception becomes \<open>ProviderUnavailableError\<close>.
\<close>

definition Beacon_normalize_error :: "exn \<Rightarrow> exn" where
  "Beacon_normalize_error e =
     (if exn_class e = ProviderUnavailableError \<or> exn_class e = RateNotFoundError then e
      else Exn ProviderUnavailableError ''Unexpected error'')"

definition Beacon_lookup_body ::
  "string \<Rightarrow> string \<Rightarrow> date \<Rightarrow> date \<Rightarrow> world \<Rightarrow> (exn + ExchangeRateResult) \<times> world"
where
  "Beacon_lookup_body source target requested_date effective_date w =
     (let td = today w;
          (r, w1) = (if effective_date \<ge> td then Beacon_make_request (Latest source) w
                     else Beacon_make_request (Historical source effective_date) w);
          actual_date = (if effective_date \<ge> td then td else effective_date)
      in case r of
           Inl e \<Rightarrow> (Inl e, w1)
         | Inr data \<Rightarrow>
             (case Beacon_find_rates data of
                Inl e \<Rightarrow> (Inl e, w1)
              | Inr rates \<Rightarrow>
                  (case json_contains target rates of
                     Inl e \<Rightarrow> (Inl e, w1)
                   | Inr False \<Rightarrow> (Inl (Exn RateNotFoundError ''Rate not found''), w1)
                   | Inr True \<Rightarrow>
                       (case json_index rates target of
                          Inl e \<Rightarrow> (Inl e, w1)
                        | Inr v \<Rightarrow>
                            (case json_to_decimal w1 v of
                               Inl e \<Rightarrow> (Inl e, w1)
                             | Inr rate \<Rightarrow>
                                 (let result = \<lparr>source_currency = source,
                                                 exchanged_currency = target,
                                                 valuation_date = actual_date,
                                                 rate_value = rate,
                                                 provider_name = Beacon_name\<rparr>
                                  in (Inr result,
                                      w1\<lparr>cache := (cache w1)
                                            ((source, target, requested_date) \<mapsto> result)\<rparr>)))))))"

definition Beacon_get_exchange_rate ::
  "string \<Rightarrow> string \<Rightarrow> date \<Rightarrow> world \<Rightarrow> (exn + ExchangeRateResult) \<times> world"
where
  "Beacon_get_exchange_rate source_code target_code requested_date w =
     (let source = upper source_code; target = upper target_code
      in if source = target then
           (Inr \<lparr>source_currency = source, exchanged_currency = target,
                 valuation_date = requested_date, rate_value = 1,
                 provider_name = Beacon_name\<rparr>, w)
         else
           (case cache w (source, target, requested_date) of
              Some cached_result \<Rightarrow> (Inr cached_result, w)
            | None \<Rightarrow>
                (let td = today w;
                     effective_date = (if requested_date > td then td else requested_date)
                 in case Beacon_lookup_body source target requested_date effective_date w of
                      (Inl e, w1) \<Rightarrow> (Inl (Beacon_normalize_error e), w1)
                    | (Inr result, w1) \<Rightarrow> (Inr result, w1))))"

subsection \<open>Batch lookup for one date\<close>

text \<open>
  Reading a local variable: \<open>None\<close> stands for a name that no statement has bound yet,
  and reading it raises \<open>UnboundLocalError\<close>.
\<close>

definition read_local :: "'a option \<Rightarrow> exn + 'a" where
  "read_local v =
     (case v of
        None \<Rightarrow> Inl (Exn UnboundLocalError ''local variable referenced before assignment'')
      | Some x \<Rightarrow> Inr x)"

text \<open>\<open>v.items()\<close>.\<close>

fun json_items :: "json \<Rightarrow> exn + (string \<times> json) list" where
  "json_items (JDict kvs) = Inr kvs"
| "json_items v = Inl (Exn AttributeError ''object has no attribute items'')"

fun Beacon_rates_loop ::
  "string \<Rightarrow> date \<Rightarrow> (string \<times> json) list \<Rightarrow> ExchangeRateResult list \<Rightarrow> world
   \<Rightarrow> (exn + ExchangeRateResult list) \<times> world"
where
  "Beacon_rates_loop source actual_date [] results w = (Inr results, w)"
| "Beacon_rates_loop source actual_date ((currency, rate) # rest) results w =
     (if currency \<noteq> source then
        (case json_to_decimal w rate of
           Inl e \<Rightarrow> (Inl e, w)
         | Inr r \<Rightarrow>
             (let result = \<lparr>source_currency = source, exchanged_currency = currency,
                             valuation_date = actual_date, rate_value = r,
                             provider_name = Beacon_name\<rparr>
              in Beacon_rates_loop source actual_date rest (results @ [result])
                   (w\<lparr>cache := (cache w)((source, currency, actual_date) \<mapsto> result)\<rparr>)))
      else Beacon_rates_loop source actual_date rest results w)"

text \<open>
  The \<open>try\<close> block of \<open>get_exchange_rates_for_date\<close>. Its first statement after the
  request is \<open>if not rates:\<close>, and \<open>rates\<close> is a local name that is assigned only
  further down: at that point it is unbound.
\<close>

definition Beacon_rates_for_date_body ::
  "string \<Rightarrow> date \<Rightarrow> string list option \<Rightarrow> world
   \<Rightarrow> (exn + ExchangeRateResult list) \<times> world"
where
  "Beacon_rates_for_date_body source effective_date target_currencies w =
     (let td = today w;
          (r, w1) = (if effective_date \<ge> td then Beacon_make_request (Latest source) w
                     else Beacon_make_request (Historical source effective_date) w);
          actual_date = (if effective_date \<ge> td then td else effective_date);
          rates_local = (None :: json option)
      in case r of
           Inl e \<Rightarrow> (Inl e, w1)
         | Inr data \<Rightarrow>
             (case read_local rates_local of
                Inl e \<Rightarrow> (Inl e, w1)
              | Inr rates0 \<Rightarrow>
                  (case (if \<not> json_truthy rates0 then
                           (case json_get data ''response'' (JDict []) of
                              Inl e \<Rightarrow> Inl e
                            | Inr (JDict kvs) \<Rightarrow> json_get (JDict kvs) ''rates'' (JDict [])
                            | Inr response \<Rightarrow> Inr rates0)
                         else Inr rates0) of
                     Inl e \<Rightarrow> (Inl e, w1)
                   | Inr rates1 \<Rightarrow>
                       (case (case target_currencies of
                                None \<Rightarrow> Inr rates1
                              | Some [] \<Rightarrow> Inr rates1
                              | Some ts \<Rightarrow>
                                  (case json_items rates1 of
                                     Inl e \<Rightarrow> Inl e
                                   | Inr kvs \<Rightarrow>
                                       Inr (JDict (filter (\<lambda>(k, v). k \<in> set (map upper ts)) kvs)))) of
                          Inl e \<Rightarrow> (Inl e, w1)
                        | Inr rates2 \<Rightarrow>
                            (case json_items rates2 of
                               Inl e \<Rightarrow> (Inl e, w1)
                             | Inr kvs \<Rightarrow> Beacon_rates_loop source actual_date kvs [] w1)))))"

definition Beacon_get_exchange_rates_for_date ::
  "string \<Rightarrow> date \<Rightarrow> string list option \<Rightarrow> world
   \<Rightarrow> (exn + ExchangeRateResult list) \<times> world"
where
  "Beacon_get_exchange_rates_for_date source_code requested_date target_currencies w =
     (let source = upper source_code;
          td = today w;
          effective_date = (if requested_date > td then td else requested_date)
      in case Beacon_rates_for_date_body source effective_date target_currencies w of
           (Inl e, w1) \<Rightarrow> (Inl (Exn ProviderUnavailableError ''Failed to get rates''), w1)
         | (Inr results, w1) \<Rightarrow> (Inr results, w1))"

subsection \<open>Historical ranges\<close>

definition max_errors :: nat where
  "max_errors = 5"

text \<open>
  One pass through the \<open>try\<close> statement of the per-day loop: either the loop is left
  (\<open>break\<close>), or it goes on with the results and the error counter given. The pause
  between two requests (\<open>time.sleep\<close>) and the log messages are not modelled.
\<close>

datatype fallback_step =
    Break
  | Continue "ExchangeRateResult list" nat

definition Beacon_fallback_try ::
  "string \<Rightarrow> string \<Rightarrow> date \<Rightarrow> world \<Rightarrow> (exn + ExchangeRateResult) \<times> world" where
  "Beacon_fallback_try source target current_date w =
     (case cache w (source, target, current_date) of
        Some cached_result \<Rightarrow> (Inr cached_result, w)
      | None \<Rightarrow> Beacon_get_exchange_rate source target current_date w)"

definition Beacon_fallback_step ::
  "string \<Rightarrow> string \<Rightarrow> date \<Rightarrow> ExchangeRateResult list \<Rightarrow> nat \<Rightarrow> world
   \<Rightarrow> fallback_step \<times> world"
where
  "Beacon_fallback_step source target current_date results error_count w =
     (case Beacon_fallback_try source target current_date w of
        (Inr result, w1) \<Rightarrow> (Continue (results @ [result]) 0, w1)
      | (Inl e, w1) \<Rightarrow>
          if exn_class e = RateNotFoundError then (Continue results 0, w1)
          else if error_count + 1 \<ge> max_errors then (Break, w1)
          else (Continue results (error_count + 1), w1))"

function Beacon_fallback_loop ::
  "string \<Rightarrow> string \<Rightarrow> date \<Rightarrow> date \<Rightarrow> ExchangeRateResult list \<Rightarrow> date \<Rightarrow> nat \<Rightarrow> world
   \<Rightarrow> (exn + ExchangeRateResult list) \<times> world"
where
  "Beacon_fallback_loop source target end_date td results current_date error_count w =
     (if current_date \<le> end_date \<and> current_date \<le> td then
        (case Beacon_fallback_step source target current_date results error_count w of
           (Break, w1) \<Rightarrow> (Inr results, w1)
         | (Continue results' error_count', w1) \<Rightarrow>
             (case add_day current_date of
                Inl e \<Rightarrow> (Inl e, w1)
              | Inr next_date \<Rightarrow>
                  Beacon_fallback_loop source target end_date td results' next_date
                    error_count' w1))
      else (Inr results, w))"
  by pat_completeness auto
termination
  by (relation "measure (\<lambda>(s, t, e, td, rs, c, n, w). nat (e + 1 - c))")
     (auto simp: add_day_def split: if_splits)

definition Beacon_fallback_historical_rates ::
  "string \<Rightarrow> string \<Rightarrow> date \<Rightarrow> date \<Rightarrow> world \<Rightarrow> (exn + ExchangeRateResult list) \<times> world"
where
  "Beacon_fallback_historical_rates source target start_date end_date w =
     (case Beacon_fallback_loop source target end_date (today w) [] start_date 0 w of
        (Inl e, w1) \<Rightarrow> (Inl e, w1)
      | (Inr results, w1) \<Rightarrow> (Inr (sort_key valuation_date results), w1))"

text \<open>
  One entry of a \<open>/timeseries\<close> mapping: \<open>None\<close> where the source skips the entry
  (the \<open>continue\<close> statements, among them the handler of \<open>ValueError\<close>, \<open>KeyError\<close>,
  \<open>TypeError\<close> and \<open>ArithmeticError\<close>, which \<open>InvalidOperation\<close> is).
\<close>

definition Beacon_parse_entry ::
  "world \<Rightarrow> string \<Rightarrow> string \<Rightarrow> string \<Rightarrow> json \<Rightarrow> ExchangeRateResult option" where
  "Beacon_parse_entry w source target date_str rates =
     (case (if CHR ''T'' \<in> set date_str
            then fromisoformat w (takeWhile (\<lambda>c. c \<noteq> CHR ''T'') date_str)
            else fromisoformat w date_str) of
        None \<Rightarrow> None
      | Some rate_date \<Rightarrow>
          (case (case rates of
                   JDict kvs \<Rightarrow>
                     (case map_of kvs target of
                        Some v \<Rightarrow> Some (json_to_decimal w v)
                      | None \<Rightarrow> None)
                 | JNum r \<Rightarrow> Some (json_to_decimal w rates)
                 | JBool b \<Rightarrow> Some (json_to_decimal w rates)
                 | JStr s \<Rightarrow> Some (json_to_decimal w rates)
                 | _ \<Rightarrow> None) of
             Some (Inr rate) \<Rightarrow>
               Some \<lparr>source_currency = source, exchanged_currency = target,
                     valuation_date = rate_date, rate_value = rate,
                     provider_name = Beacon_name\<rparr>
           | _ \<Rightarrow> None))"

fun Beacon_timeseries_loop ::
  "string \<Rightarrow> string \<Rightarrow> (string \<times> json) list \<Rightarrow> ExchangeRateResult list \<Rightarrow> world
   \<Rightarrow> ExchangeRateResult list \<times> world"
where
  "Beacon_timeseries_loop source target [] results w = (results, w)"
| "Beacon_timeseries_loop source target ((date_str, rates) # rest) results w =
     (case Beacon_parse_entry w source target date_str rates of
        None \<Rightarrow> Beacon_timeseries_loop source target rest results w
      | Some result \<Rightarrow>
          Beacon_timeseries_loop source target rest (results @ [result])
            (w\<lparr>cache := (cache w)((source, target, valuation_date result) \<mapsto> result)\<rparr>))"

text \<open>
  The rates container of a \<open>/timeseries\<close> answer:
  \<open>data.get('response', data.get('rates', {}))\<close>.
\<close>

definition timeseries_container :: "json \<Rightarrow> exn + json" where
  "timeseries_container data =
     (case json_get data ''rates'' (JDict []) of
        Inl e \<Rightarrow> Inl e
      | Inr dflt \<Rightarrow> json_get data ''response'' dflt)"

text \<open>
  The \<open>try\<close> block of \<open>get_historical_rates\<close>; the calls of the per-day path that it
  makes are inside the block.
\<close>

definition Beacon_timeseries_attempt ::
  "string \<Rightarrow> string \<Rightarrow> date \<Rightarrow> date \<Rightarrow> world \<Rightarrow> (exn + ExchangeRateResult list) \<times> world"
where
  "Beacon_timeseries_attempt source target start_date end_date w =
     (case Beacon_make_request (Timeseries source start_date end_date target) w of
        (Inl e, w1) \<Rightarrow> (Inl e, w1)
      | (Inr data, w1) \<Rightarrow>
          (case timeseries_container data of
             Inl e \<Rightarrow> (Inl e, w1)
           | Inr (JList xs) \<Rightarrow>
               Beacon_fallback_historical_rates source target start_date end_date w1
           | Inr (JDict kvs) \<Rightarrow>
               (let (results, w2) = Beacon_timeseries_loop source target kvs [] w1
                in if results \<noteq> [] then (Inr (sort_key valuation_date results), w2)
                   else Beacon_fallback_historical_rates source target start_date
                          end_date w2)
           | Inr response \<Rightarrow>
               Beacon_fallback_historical_rates source target start_date end_date w1))"

definition Beacon_get_historical_rates ::
  "string \<Rightarrow> string \<Rightarrow> date \<Rightarrow> date \<Rightarrow> world \<Rightarrow> (exn + ExchangeRateResult list) \<times> world"
where
  "Beacon_get_historical_rates source_code target_code start_date requested_end w =
     (let source = upper source_code; target = upper target_code
      in if start_date > requested_end then
           (Inl (Exn ValueError ''start_date must be before end_date''), w)
         else
           (let td = today w
            in if start_date > td then (Inr [], w)
               else
                 (let end_date = (if requested_end > td then td else requested_end)
                  in case Beacon_timeseries_attempt source target start_date end_date w of
                       (Inl e, w1) \<Rightarrow>
                         Beacon_fallback_historical_rates source target start_date end_date w1
                     | (Inr results, w1) \<Rightarrow> (Inr results, w1))))"

text \<open>
  Every quote that the cache holds for a pair is stored under the date it carries.
\<close>

definition cache_dated :: "string \<Rightarrow> string \<Rightarrow> world \<Rightarrow> bool" where
  "cache_dated source target w =
     (\<forall>d q. cache w (source, target, d) = Some q \<longrightarrow> valuation_date q = d)"

section \<open>Persistent store and provider configuration (apps/*/models.py)\<close>

text \<open>
  A row of \<open>CurrencyExchangeRate\<close>; the two foreign keys are represented by the code of
  the currency they point to (\<open>Currency.code\<close> is unique). A row of \<open>Provider\<close>; its
  \<open>config\<close> holds the keys that an adapter constructor reads.
\<close>

record CurrencyExchangeRate =
  row_source :: string
  row_target :: string
  row_date :: date
  row_rate :: decimal

record Provider =
  name :: string
  adapter_path :: string
  priority :: nat
  is_active :: bool
  config :: mock_config

text \<open>An adapter instance. The fields of the remote adapter do not enter the model.\<close>

datatype adapter =
    MockA MockAdapter
  | BeaconA

datatype adapter_class =
    MockAdapter_class
  | CurrencyBeaconAdapter_class

text \<open>
  The state of the application: the three tables, the adapter cache of the process-wide
  \<open>ProviderManager\<close> (keyed by adapter path and configuration), and the surroundings
  \<open>env\<close> the adapters work on. The database backend is not part of this repository;
  \<open>db_adapts_decimals\<close> says which of Django's two ways of writing a decimal column it
  takes: the value is quantized by Django before it is sent (\<open>format_number\<close>, ties to
  even), or it is sent as it is and rounded by the database (PostgreSQL \<open>numeric\<close>,
  ties away from zero).
\<close>

record app =
  db_currencies :: "string list"
  db_rates :: "CurrencyExchangeRate list"
  db_providers :: "Provider list"
  db_adapts_decimals :: bool
  adapters_cache :: "string \<times> mock_config \<Rightarrow> adapter option"
  env :: world

section \<open>The failover orchestrator (services/provider_manager.py)\<close>

text \<open>
  \<open>_import_adapter_class\<close>: the paths under which the two adapter classes of this
  repository can be imported; every other path is an import failure (a path to some
  other importable object, which the source would return and fail on later, is not
  modelled).
\<close>

definition import_adapter_class :: "string \<Rightarrow> exn + adapter_class" where
  "import_adapter_class path =
     (if path = ''adapters.mock.MockAdapter'' \<or> path = ''adapters.MockAdapter''
      then Inr MockAdapter_class
      else if path = ''adapters.currencybeacon.CurrencyBeaconAdapter''
              \<or> path = ''adapters.CurrencyBeaconAdapter''
      then Inr CurrencyBeaconAdapter_class
      else Inl (Exn ImportError ''Cannot import adapter class''))"

definition construct_adapter :: "adapter_class \<Rightarrow> mock_config \<Rightarrow> world \<Rightarrow> adapter \<times> world" where
  "construct_adapter cls cfg w =
     (case cls of
        MockAdapter_class \<Rightarrow> (let (a, w') = Mock_init cfg w in (MockA a, w'))
      | CurrencyBeaconAdapter_class \<Rightarrow> (BeaconA, w))"

definition get_adapter :: "string \<Rightarrow> mock_config \<Rightarrow> app \<Rightarrow> (exn + adapter) \<times> app" where
  "get_adapter path cfg st =
     (case adapters_cache st (path, cfg) of
        Some ad \<Rightarrow> (Inr ad, st)
      | None \<Rightarrow>
          (case import_adapter_class path of
             Inl e \<Rightarrow> (Inl e, st)
           | Inr cls \<Rightarrow>
               (let (ad, w') = construct_adapter cls cfg (env st)
                in (Inr ad, st\<lparr>adapters_cache := (adapters_cache st)((path, cfg) \<mapsto> ad),
                                env := w'\<rparr>))))"

text \<open>
  \<open>Provider.objects.filter(is_active=True).order_by('priority', 'name')\<close>; names are
  compared as lists of characters.
\<close>

definition get_active_providers :: "app \<Rightarrow> Provider list" where
  "get_active_providers st =
     sort_key (\<lambda>p. (priority p, name p)) (filter is_active (db_providers st))"

definition get_adapter_for_provider :: "Provider \<Rightarrow> app \<Rightarrow> (exn + adapter) \<times> app" where
  "get_adapter_for_provider provider st = get_adapter (adapter_path provider) (config provider) st"

text \<open>An operation runs on the surroundings of the application.\<close>

definition run_operation ::
  "(adapter \<Rightarrow> world \<Rightarrow> (exn + 'r) \<times> world) \<Rightarrow> adapter \<Rightarrow> app \<Rightarrow> (exn + 'r) \<times> app" where
  "run_operation operation ad st =
     (let (r, w') = operation ad (env st) in (r, st\<lparr>env := w'\<rparr>))"

text \<open>
  The loop of \<open>execute_with_failover\<close>. Beside the result it returns the calls of
  \<open>operation\<close> it has made, oldest first: the provider and what the call returned or
  raised. Only an \<open>ExchangeRateAdapterError\<close> is handled; any other exception leaves
  the function.
\<close>

fun failover_loop ::
  "(adapter \<Rightarrow> world \<Rightarrow> (exn + 'r) \<times> world) \<Rightarrow> Provider list \<Rightarrow> exn option
   \<Rightarrow> (Provider \<times> (exn + 'r)) list \<Rightarrow> app
   \<Rightarrow> ((exn + 'r) \<times> (Provider \<times> (exn + 'r)) list) \<times> app"
where
  "failover_loop operation [] last_error calls st =
     ((Inl (Exn ExchangeRateAdapterError
              (case last_error of
                 Some e \<Rightarrow> ''All providers failed. Last error: '' @ message e
               | None \<Rightarrow> ''All providers failed'')), calls), st)"
| "failover_loop operation (provider # rest) last_error calls st =
     (case get_adapter_for_provider provider st of
        (Inl e, st1) \<Rightarrow>
          if is_adapter_error e then failover_loop operation rest (Some e) calls st1
          else ((Inl e, calls), st1)
      | (Inr ad, st1) \<Rightarrow>
          (case run_operation operation ad st1 of
             (Inr result, st2) \<Rightarrow> ((Inr result, calls @ [(provider, Inr result)]), st2)
           | (Inl e, st2) \<Rightarrow>
               if is_adapter_error e
               then failover_loop operation rest (Some e) (calls @ [(provider, Inl e)]) st2
               else ((Inl e, calls @ [(provider, Inl e)]), st2)))"

definition execute_with_failover_calls ::
  "(adapter \<Rightarrow> world \<Rightarrow> (exn + 'r) \<times> world) \<Rightarrow> app
   \<Rightarrow> ((exn + 'r) \<times> (Provider \<times> (exn + 'r)) list) \<times> app"
where
  "execute_with_failover_calls operation st =
     (let providers = get_active_providers st
      in if providers = [] then
           ((Inl (Exn ExchangeRateAdapterError
                    ''No active exchange rate providers configured''), []), st)
         else failover_loop operation providers None [] st)"

definition execute_with_failover ::
  "(adapter \<Rightarrow> world \<Rightarrow> (exn + 'r) \<times> world) \<Rightarrow> app \<Rightarrow> (exn + 'r) \<times> app" where
  "execute_with_failover operation st =
     (let ((r, calls), st') = execute_with_failover_calls operation st in (r, st'))"



section \<open>The resolution service (services/exchange\_rate\_service.py)\<close>

text \<open>The methods of the provider contract, dispatched on the adapter.\<close>

definition adapter_get_exchange_rate ::
  "string \<Rightarrow> string \<Rightarrow> date \<Rightarrow> adapter \<Rightarrow> world \<Rightarrow> (exn + ExchangeRateResult) \<times> world"
where
  "adapter_get_exchange_rate source target d ad w =
     (case ad of
        MockA a \<Rightarrow> Mock_get_exchange_rate a source target d w
      | BeaconA \<Rightarrow> Beacon_get_exchange_rate source target d w)"

definition adapter_get_historical_rates ::
  "string \<Rightarrow> string \<Rightarrow> date \<Rightarrow> date \<Rightarrow> adapter \<Rightarrow> world
   \<Rightarrow> (exn + ExchangeRateResult list) \<times> world"
where
  "adapter_get_historical_rates source target start_date end_date ad w =
     (case ad of
        MockA a \<Rightarrow> Mock_get_historical_rates a source target start_date end_date w
      | BeaconA \<Rightarrow> Beacon_get_historical_rates source target start_date end_date w)"

definition matches_key :: "string \<Rightarrow> string \<Rightarrow> date \<Rightarrow> CurrencyExchangeRate \<Rightarrow> bool" where
  "matches_key s t d r = (row_source r = s \<and> row_target r = t \<and> row_date r = d)"

text \<open>\<open>QuerySet.get\<close> on the rate table, \<open>None\<close> for \<open>DoesNotExist\<close>.\<close>

definition get_rate_from_db ::
  "string \<Rightarrow> string \<Rightarrow> date \<Rightarrow> app \<Rightarrow> exn + CurrencyExchangeRate option" where
  "get_rate_from_db s t d st =
     (case filter (matches_key s t d) (db_rates st) of
        [] \<Rightarrow> Inr None
      | [r] \<Rightarrow> Inr (Some r)
      | _ \<Rightarrow> Inl (Exn MultipleObjectsReturned ''get() returned more than one row''))"

text \<open>\<open>Currency.objects.get(code=...)\<close>.\<close>

definition Currency_get :: "string \<Rightarrow> app \<Rightarrow> exn + string" where
  "Currency_get code st =
     (case filter (\<lambda>c. c = code) (db_currencies st) of
        [] \<Rightarrow> Inl (Exn DoesNotExist ''Currency matching query does not exist'')
      | [c] \<Rightarrow> Inr c
      | _ \<Rightarrow> Inl (Exn MultipleObjectsReturned ''get() returned more than one row''))"

text \<open>
  What the column \<open>rate_value = DecimalField(max_digits=18, decimal_places=6)\<close> stores
  for a value: the value rounded to 6 decimal places, and an error when the rounded
  value has more than 18 digits.
\<close>

definition round_half_away :: "rat \<Rightarrow> int" where
  "round_half_away x = (if 0 \<le> x then \<lfloor>x + 1 / 2\<rfloor> else - \<lfloor>- x + 1 / 2\<rfloor>)"

definition column_store :: "bool \<Rightarrow> decimal \<Rightarrow> exn + decimal" where
  "column_store adapts x =
     (let q = (if adapts then round_half_even (x * 1000000) else round_half_away (x * 1000000))
      in if \<bar>q\<bar> \<ge> 10 ^ 18 then
           Inl (if adapts then Exn InvalidOperation ''quantize result has too many digits''
                else Exn DataError ''numeric field overflow'')
         else Inr (of_int q / 1000000))"

text \<open>
  \<open>CurrencyExchangeRate.objects.update_or_create\<close> with the three key fields as lookup
  and \<open>rate_value\<close> as default: Django looks the row up with \<open>get\<close>, creates it when
  there is none, and otherwise stores the new rate in it. The object it returns carries
  the rate it was given; the row of the table carries what the column stores for it.
\<close>

definition update_or_create ::
  "string \<Rightarrow> string \<Rightarrow> date \<Rightarrow> decimal \<Rightarrow> app \<Rightarrow> (exn + CurrencyExchangeRate) \<times> app" where
  "update_or_create s t d rate st =
     (case filter (matches_key s t d) (db_rates st) of
        [] \<Rightarrow>
          (case column_store (db_adapts_decimals st) rate of
             Inl e \<Rightarrow> (Inl e, st)
           | Inr stored \<Rightarrow>
               (Inr \<lparr>row_source = s, row_target = t, row_date = d, row_rate = rate\<rparr>,
                st\<lparr>db_rates := db_rates st
                       @ [\<lparr>row_source = s, row_target = t, row_date = d, row_rate = stored\<rparr>]\<rparr>))
      | [r] \<Rightarrow>
          (case column_store (db_adapts_decimals st) rate of
             Inl e \<Rightarrow> (Inl e, st)
           | Inr stored \<Rightarrow>
               (Inr (r\<lparr>row_rate := rate\<rparr>),
                st\<lparr>db_rates := map (\<lambda>x. if matches_key s t d x then x\<lparr>row_rate := stored\<rparr>
                                          else x) (db_rates st)\<rparr>))
      | _ \<Rightarrow> (Inl (Exn MultipleObjectsReturned ''get() returned more than one row''), st))"

definition save_rate_to_db ::
  "ExchangeRateResult \<Rightarrow> app \<Rightarrow> (exn + CurrencyExchangeRate) \<times> app" where
  "save_rate_to_db result st =
     (case Currency_get (source_currency result) st of
        Inl e \<Rightarrow> (Inl e, st)
      | Inr source \<Rightarrow>
          (case Currency_get (exchanged_currency result) st of
             Inl e \<Rightarrow> (Inl e, st)
           | Inr target \<Rightarrow>
               update_or_create source target (valuation_date result) (rate_value result) st))"

text \<open>
  \<open>Provider.objects.get(name__iexact=provider_name, is_active=True)\<close>; the
  case-insensitive match compares the upper-cased names.
\<close>

definition Provider_get :: "string \<Rightarrow> app \<Rightarrow> exn + Provider" where
  "Provider_get requested_provider st =
     (case filter (\<lambda>p. upper (name p) = upper requested_provider \<and> is_active p) (db_providers st) of
        [] \<Rightarrow> Inl (Exn DoesNotExist ''Provider matching query does not exist'')
      | [p] \<Rightarrow> Inr p
      | _ \<Rightarrow> Inl (Exn MultipleObjectsReturned ''get() returned more than one row''))"

text \<open>Truth value of an optional provider name: \<open>None\<close> and the empty string are false.\<close>

definition truthy_name :: "string option \<Rightarrow> bool" where
  "truthy_name p = (p \<noteq> None \<and> p \<noteq> Some [])"

definition fetch_from_provider ::
  "string \<Rightarrow> string \<Rightarrow> date \<Rightarrow> string option \<Rightarrow> app \<Rightarrow> (exn + ExchangeRateResult) \<times> app"
where
  "fetch_from_provider source target d requested_provider st =
     (let fetch_operation = adapter_get_exchange_rate source target d
      in if truthy_name requested_provider then
           (case Provider_get (the requested_provider) st of
              Inl e \<Rightarrow>
                if exn_class e = DoesNotExist
                then (Inl (Exn ExchangeRateAdapterError ''Provider not found or inactive''), st)
                else (Inl e, st)
            | Inr provider \<Rightarrow>
                (case get_adapter_for_provider provider st of
                   (Inl e, st1) \<Rightarrow> (Inl e, st1)
                 | (Inr ad, st1) \<Rightarrow> run_operation fetch_operation ad st1))
         else execute_with_failover fetch_operation st)"

definition get_exchange_rate_data ::
  "string \<Rightarrow> string \<Rightarrow> date \<Rightarrow> string option \<Rightarrow> app \<Rightarrow> (exn + CurrencyExchangeRate) \<times> app"
where
  "get_exchange_rate_data source_code target_code d provider st =
     (let source = upper source_code; target = upper target_code
      in case get_rate_from_db source target d st of
           Inl e \<Rightarrow> (Inl e, st)
         | Inr (Some existing_rate) \<Rightarrow> (Inr existing_rate, st)
         | Inr None \<Rightarrow>
             (case fetch_from_provider source target d provider st of
                (Inl e, st1) \<Rightarrow> (Inl e, st1)
              | (Inr result, st1) \<Rightarrow> save_rate_to_db result st1))"

text \<open>
  The loop of \<open>_bulk_save_rates\<close>, which runs inside \<open>transaction.atomic()\<close>: an
  exception rolls the rate table back.
\<close>

fun bulk_save_loop ::
  "ExchangeRateResult list \<Rightarrow> CurrencyExchangeRate list \<Rightarrow> app
   \<Rightarrow> (exn + CurrencyExchangeRate list) \<times> app"
where
  "bulk_save_loop [] saved_rates st = (Inr saved_rates, st)"
| "bulk_save_loop (result # rest) saved_rates st =
     (if source_currency result \<notin> set (db_currencies st)
         \<or> exchanged_currency result \<notin> set (db_currencies st)
      then bulk_save_loop rest saved_rates st
      else
        (case update_or_create (source_currency result) (exchanged_currency result)
                (valuation_date result) (rate_value result) st of
           (Inl e, st1) \<Rightarrow> (Inl e, st1)
         | (Inr row, st1) \<Rightarrow> bulk_save_loop rest (saved_rates @ [row]) st1))"

definition bulk_save_rates ::
  "ExchangeRateResult list \<Rightarrow> app \<Rightarrow> (exn + CurrencyExchangeRate list) \<times> app" where
  "bulk_save_rates results st =
     (case bulk_save_loop results [] st of
        (Inl e, st1) \<Rightarrow> (Inl e, st1\<lparr>db_rates := db_rates st\<rparr>)
      | (Inr saved_rates, st1) \<Rightarrow> (Inr saved_rates, st1))"

definition load_historical_rates ::
  "string \<Rightarrow> string \<Rightarrow> date \<Rightarrow> date \<Rightarrow> string option \<Rightarrow> app
   \<Rightarrow> (exn + CurrencyExchangeRate list) \<times> app"
where
  "load_historical_rates source_code target_code start_date end_date requested_provider st =
     (let source = upper source_code; target = upper target_code;
          fetch_historical = adapter_get_historical_rates source target start_date end_date;
          (r, st1) =
            (if truthy_name requested_provider then
               (case Provider_get (the requested_provider) st of
                  Inl e \<Rightarrow> (Inl e, st)
                | Inr provider \<Rightarrow>
                    (case get_adapter_for_provider provider st of
                       (Inl e, st1) \<Rightarrow> (Inl e, st1)
                     | (Inr ad, st1) \<Rightarrow> run_operation fetch_historical ad st1))
             else execute_with_failover fetch_historical st)
      in case r of
           Inl e \<Rightarrow> (Inl e, st1)
         | Inr results \<Rightarrow> bulk_save_rates results st1)"

text \<open>
  The uniqueness constraint of the rate table (\<open>unique_together\<close> on the two
  currencies and the date), and that of \<open>Currency.code\<close>.
\<close>

definition row_key :: "CurrencyExchangeRate \<Rightarrow> string \<times> string \<times> date" where
  "row_key r = (row_source r, row_target r, row_date r)"

definition unique_rows :: "app \<Rightarrow> bool" where
  "unique_rows st = distinct (map row_key (db_rates st))"

definition unique_codes :: "app \<Rightarrow> bool" where
  "unique_codes st = distinct (db_currencies st)"

section \<open>Concrete surroundings\<close>

text \<open>
  A small generator and an upstream service with fixed answers, used to run the
  definitions on concrete inputs. Day 738945 is 2024-02-29.
\<close>

definition example_http :: "request \<Rightarrow> http_outcome" where
  "example_http req =
     (case req of
        Latest b \<Rightarrow> Body (JDict [(''rates'', JDict [(''USD'', JNum (108 / 100))])])
      | Historical b d \<Rightarrow>
          (if d = 738943 then Body (JDict [(''rates'', JDict [(''GBP'', JNum (86 / 100))])])
           else if d < 738940 then Timeout
           else Body (JDict [(''response'', JDict [(''rates'', JDict [(''USD'', JNum (107 / 100))])])]))
      | Timeseries b s e t \<Rightarrow> Body (JDict [(''response'', JList [])]))"

definition example_world :: world where
  "example_world =
     \<lparr>gen_seed = (\<lambda>n. nat \<bar>n\<bar> mod 1000),
      gen_random = (\<lambda>g. (of_nat (g mod 100) / 100, (7 * g + 13) mod 1000)),
      rng = 5,
      entropy = (\<lambda>k. 37 + 11 * k),
      entropy_pos = 0,
      parse_decimal = (\<lambda>s. None),
      fromisoformat = (\<lambda>s. None),
      today = 738945,
      cache = (\<lambda>k. None),
      http = example_http,
      sent = []\<rparr>"

definition default_config :: mock_config where
  "default_config = \<lparr>cfg_base_rates = None, cfg_volatility = None, cfg_seed = None\<rparr>"

definition default_mock :: MockAdapter where
  "default_mock = \<lparr>base_rates = DEFAULT_BASE_RATES, volatility = 5 / 100\<rparr>"


text \<open>Two active providers and an inactive one; no rate is stored.\<close>

definition beacon_provider :: Provider where
  "beacon_provider = \<lparr>name = ''beacon'', adapter_path = ''adapters.currencybeacon.CurrencyBeaconAdapter'',
                       priority = 1, is_active = True, config = default_config\<rparr>"

definition mock_provider :: Provider where
  "mock_provider = \<lparr>name = ''mock'', adapter_path = ''adapters.mock.MockAdapter'',
                     priority = 2, is_active = True, config = default_config\<rparr>"

definition idle_provider :: Provider where
  "idle_provider = \<lparr>name = ''idle'', adapter_path = ''adapters.mock.MockAdapter'',
                     priority = 0, is_active = False, config = default_config\<rparr>"

definition example_app :: app where
  "example_app =
     \<lparr>db_currencies = [''EUR'', ''USD'', ''GBP''],
      db_rates = [],
      db_providers = [mock_provider, idle_provider, beacon_provider],
      db_adapts_decimals = False,
      adapters_cache = (\<lambda>k. None),
      env = example_world\<rparr>"

text \<open>The surroundings with a quote in the cache, stored under the date it carries.\<close>

definition cached_world :: world where
  "cached_world =
     example_world\<lparr>cache := (cache example_world)((''EUR'', ''USD'', 738944) \<mapsto>
       \<lparr>source_currency = ''EUR'', exchanged_currency = ''USD'', valuation_date = 738944,
        rate_value = 109 / 100, provider_name = ''CurrencyBeacon''\<rparr>)\<rparr>"

text \<open>
  The surroundings one day after a single-date lookup of EUR/USD for the then-future
  date 738946: the lookup has stored its quote, dated 738945, under the requested date.
\<close>

definition stale_world :: world where
  "stale_world =
     (snd (Beacon_get_exchange_rate ''eur'' ''usd'' 738946 example_world))\<lparr>today := 738946\<rparr>"

text \<open>Two quotes for the same pair and date with different rates.\<close>

definition first_quote :: ExchangeRateResult where
  "first_quote = \<lparr>source_currency = ''EUR'', exchanged_currency = ''USD'',
                   valuation_date = 738945, rate_value = 108 / 100,
                   provider_name = ''CurrencyBeacon''\<rparr>"

definition second_quote :: ExchangeRateResult where
  "second_quote = \<lparr>source_currency = ''EUR'', exchanged_currency = ''USD'',
                    valuation_date = 738945, rate_value = 110 / 100,
                    provider_name = ''Mock Provider''\<rparr>"

text \<open>A quote for the same key whose rate has ten decimal places.\<close>

definition long_quote :: ExchangeRateResult where
  "long_quote = \<lparr>source_currency = ''EUR'', exchanged_currency = ''USD'',
                  valuation_date = 738945, rate_value = 10812345678 / 10000000000,
                  provider_name = ''CurrencyBeacon''\<rparr>"

text \<open>The application with a stored same-currency record whose rate is not 1.\<close>

definition stored_app :: app where
  "stored_app = example_app\<lparr>db_rates :=
     [\<lparr>row_source = ''EUR'', row_target = ''EUR'', row_date = 738945, row_rate = 2\<rparr>]\<rparr>"

declare Beacon_fallback_loop.simps [simp del] Mock_historical_loop.simps [simp del]

section \<open>Properties of the synthetic generator\<close>

lemma Mock_get_base_rate_table:
  assumes "Mock_table_resolves a s t" "upper s \<noteq> upper t"
  shows "\<exists>r. \<forall>w. Mock_get_base_rate a s t w = (r, w)"
proof (cases "map_of (base_rates a) (upper s, upper t)")
  case (Some r)
  then show ?thesis by (simp add: Mock_get_base_rate_def)
next
  case None
  with assms have "upper s \<noteq> ''EUR''"
    "truthy_decimal (map_of (base_rates a) (upper s, ''EUR''))"
    "truthy_decimal (map_of (base_rates a) (''EUR'', upper t))"
    by (simp_all add: Mock_table_resolves_def)
  with None show ?thesis by (simp add: Mock_get_base_rate_def)
qed

lemma Mock_apply_variation_rate:
  "same_generator w1 w2 \<Longrightarrow>
   fst (Mock_apply_variation a r d w1) = fst (Mock_apply_variation a r d w2)"
  by (simp add: Mock_apply_variation_def same_generator_def random_seed_def random_uniform_def
      random_reseed_def Let_def split: prod.splits)

lemma Mock_rate_table_deterministic:
  assumes "same_generator w1 w2" "Mock_table_resolves a s t"
  shows "fst (Mock_get_exchange_rate a s t d w1) = fst (Mock_get_exchange_rate a s t d w2)"
proof (cases "upper s = upper t")
  case True
  then show ?thesis by (simp add: Mock_get_exchange_rate_def)
next
  case False
  from Mock_get_base_rate_table [OF assms(2) False]
  obtain r where r: "\<And>w. Mock_get_base_rate a s t w = (r, w)" by blast
  have "fst (Mock_apply_variation a r d w1) = fst (Mock_apply_variation a r d w2)"
    using assms(1) by (rule Mock_apply_variation_rate)
  then show ?thesis
    using False
    by (auto simp add: Mock_get_exchange_rate_def r split: prod.splits sum.splits)
qed

text \<open>
  Claim C1, as amended. For a pair whose base rate is resolved from the table (a direct
  entry, or the product over EUR), and for a same-currency pair, the result of
  \<open>get_exchange_rate\<close> depends only on the pair, the date, the volatility and the table:
  two adapter instances constructed from configurations with the same table and
  volatility (whatever their seeds), called in any two states of the module-level
  generator, return the same quote. For a pair outside the table the base rate is drawn
  from the module-level generator, and the claim fails (see the counterexample below).
\<close>

theorem mock_rate_reproducible:
  assumes "cfg_base_rates c1 = cfg_base_rates c2" "cfg_volatility c1 = cfg_volatility c2"
    and "same_generator w1 w2"
    and "Mock_table_resolves (fst (Mock_init c1 v1)) s t"
  shows "fst (Mock_get_exchange_rate (fst (Mock_init c1 v1)) s t d w1)
       = fst (Mock_get_exchange_rate (fst (Mock_init c2 v2)) s t d w2)"
proof -
  have "fst (Mock_init c1 v1) = fst (Mock_init c2 v2)"
    using assms(1,2) by (simp add: Mock_init_def Let_def split: option.splits)
  then show ?thesis
    using Mock_rate_table_deterministic [OF assms(3,4)] by simp
qed

lemmas mock_eval = Mock_get_exchange_rate_def Mock_get_base_rate_def Mock_apply_variation_def
  Mock_random_base_rate_def random_uniform_def random_seed_def random_reseed_def
  decimal_round6_def float_round6_def round_half_even_def truthy_decimal_def
  DEFAULT_BASE_RATES_def default_mock_def example_world_def upper_def upper_char_def
  Mock_name_def Let_def

lemma date_factor_example: "date_factor 738945 = 20240229"
  by (simp add: date_factor_def year_def month_def day_def ord2ymd_def Let_def
      DAYS_BEFORE_MONTH_def DAYS_IN_MONTH_def)

lemma default_init: "fst (Mock_init default_config v) = default_mock"
  by (simp add: Mock_init_def default_config_def default_mock_def)

lemma seeded_init: "fst (Mock_init (default_config\<lparr>cfg_seed := Some 42\<rparr>) v) = default_mock"
  by (simp add: Mock_init_def default_config_def default_mock_def)

theorem mock_rate_reproducible_witness:
  "cfg_base_rates default_config = cfg_base_rates (default_config\<lparr>cfg_seed := Some 42\<rparr>)
   \<and> cfg_volatility default_config = cfg_volatility (default_config\<lparr>cfg_seed := Some 42\<rparr>)
   \<and> same_generator example_world (example_world\<lparr>rng := 37, entropy_pos := Suc 0\<rparr>)
   \<and> Mock_table_resolves (fst (Mock_init default_config example_world)) ''eur'' ''usd''
   \<and> fst (Mock_get_exchange_rate (fst (Mock_init default_config example_world))
            ''eur'' ''usd'' 738945 example_world)
     = fst (Mock_get_exchange_rate
              (fst (Mock_init (default_config\<lparr>cfg_seed := Some 42\<rparr>) example_world))
              ''eur'' ''usd'' 738945 (example_world\<lparr>rng := 37, entropy_pos := Suc 0\<rparr>))"
proof -
  have h1: "cfg_base_rates default_config
            = cfg_base_rates (default_config\<lparr>cfg_seed := Some 42\<rparr>)" by simp
  have h2: "cfg_volatility default_config
            = cfg_volatility (default_config\<lparr>cfg_seed := Some 42\<rparr>)" by simp
  have h3: "same_generator example_world (example_world\<lparr>rng := 37, entropy_pos := Suc 0\<rparr>)"
    by (simp add: same_generator_def)
  have h4: "Mock_table_resolves (fst (Mock_init default_config example_world)) ''eur'' ''usd''"
    by (simp add: default_init Mock_table_resolves_def default_mock_def
        DEFAULT_BASE_RATES_def upper_def upper_char_def)
  from mock_rate_reproducible [OF h1 h2 h3 h4] h1 h2 h3 h4 show ?thesis by blast
qed

lemma example_first_call:
  "Mock_get_exchange_rate default_mock ''JPY'' ''AUD'' 738945 example_world
   = (Inr \<lparr>source_currency = ''JPY'', exchanged_currency = ''AUD'', valuation_date = 738945,
           rate_value = 22517 / 40000, provider_name = ''Mock Provider''\<rparr>,
      example_world\<lparr>rng := 37, entropy_pos := Suc 0\<rparr>)"
  by (simp add: mock_eval date_factor_example)

lemma example_second_call:
  "fst (Mock_get_exchange_rate default_mock ''JPY'' ''AUD'' 738945
          (example_world\<lparr>rng := 37, entropy_pos := Suc 0\<rparr>))
   = Inr \<lparr>source_currency = ''JPY'', exchanged_currency = ''AUD'', valuation_date = 738945,
           rate_value = 206569 / 200000, provider_name = ''Mock Provider''\<rparr>"
  by (simp add: mock_eval date_factor_example)

text \<open>
  Claim C1 as stated fails: two successive calls on the same adapter instance, for the
  same pair outside the table and the same date, return different rates (0.562925, then
  1.032845).
\<close>

theorem mock_rate_not_reproducible:
  "fst (Mock_get_exchange_rate default_mock ''JPY'' ''AUD'' 738945 example_world)
   \<noteq> fst (Mock_get_exchange_rate default_mock ''JPY'' ''AUD'' 738945
            (snd (Mock_get_exchange_rate default_mock ''JPY'' ''AUD'' 738945 example_world)))"
  by (simp add: example_first_call example_second_call)

lemma round_half_even_near: "\<bar>of_int (round_half_even x) - x\<bar> \<le> 1"
  unfolding round_half_even_def Let_def
  by (auto simp: abs_if) linarith+

lemma decimal_round6_ok:
  assumes "\<bar>x\<bar> \<le> 10 ^ 19"
  shows "\<exists>y. decimal_round6 x = Inr y"
proof -
  let ?q = "round_half_even (x * 1000000)"
  have "\<bar>of_int ?q - x * 1000000\<bar> \<le> (1::rat)" by (rule round_half_even_near)
  moreover have "\<bar>x * 1000000\<bar> \<le> 10000000000000000000000000"
    using assms by (simp add: abs_mult)
  ultimately have "\<bar>(of_int ?q :: rat)\<bar> < 10000000000000000000000000000" by linarith
  then have "(of_int \<bar>?q\<bar> :: rat) < of_int 10000000000000000000000000000" by simp
  then have "\<bar>?q\<bar> < 10000000000000000000000000000" by (simp only: of_int_less_iff)
  then have "\<bar>?q\<bar> < 10 ^ 28" by simp
  then have "decimal_round6 x = Inr (of_int ?q / 1000000)"
    by (simp add: decimal_round6_def Let_def)
  then show ?thesis by blast
qed

lemma random_uniform_gen [simp]:
  "gen_random (snd (random_uniform a b w)) = gen_random w"
  "gen_seed (snd (random_uniform a b w)) = gen_seed w"
  by (simp_all add: random_uniform_def split: prod.splits)

lemma random_uniform_range:
  assumes "unit_generator w" "a \<le> b"
  shows "a \<le> fst (random_uniform a b w) \<and> fst (random_uniform a b w) \<le> b"
proof -
  obtain u g where ug: "gen_random w (rng w) = (u, g)" by (cases "gen_random w (rng w)")
  with assms(1) have u: "0 \<le> u" "u < 1"
    unfolding unit_generator_def by (metis fst_conv)+
  have "0 \<le> (b - a) * u" using u assms(2) by simp
  moreover have "(b - a) * u \<le> (b - a) * 1"
    using u assms(2) by (intro mult_left_mono) simp_all
  ultimately show ?thesis by (simp add: random_uniform_def ug)
qed

lemma random_uniform_abs:
  assumes "unit_generator w"
  shows "\<bar>fst (random_uniform (- v) v w)\<bar> \<le> \<bar>v\<bar>"
proof -
  obtain u g where ug: "gen_random w (rng w) = (u, g)" by (cases "gen_random w (rng w)")
  with assms(1) have u: "0 \<le> u" "u < 1"
    unfolding unit_generator_def by (metis fst_conv)+
  have eq: "fst (random_uniform (- v) v w) = v * (2 * u - 1)"
    by (simp add: random_uniform_def ug algebra_simps)
  have "\<bar>2 * u - 1\<bar> \<le> 1" using u by (simp add: abs_if)
  then have "\<bar>v\<bar> * \<bar>2 * u - 1\<bar> \<le> \<bar>v\<bar> * 1"
    by (intro mult_left_mono) simp_all
  then show ?thesis by (simp add: eq abs_mult)
qed

lemma Mock_random_base_rate_bound:
  assumes "unit_generator w"
  shows "\<bar>fst (Mock_random_base_rate w)\<bar> \<le> 3"
    and "gen_random (snd (Mock_random_base_rate w)) = gen_random w"
proof -
  let ?x = "fst (random_uniform (1 / 2) 2 w)"
  have r: "1 / 2 \<le> ?x \<and> ?x \<le> 2" using assms by (intro random_uniform_range) simp_all
  have "\<bar>of_int (round_half_even (?x * 1000000)) - ?x * 1000000\<bar> \<le> (1::rat)"
    by (rule round_half_even_near)
  with r have "\<bar>(of_int (round_half_even (?x * 1000000)) :: rat)\<bar> \<le> 3 * 1000000" by linarith
  then have "\<bar>float_round6 ?x\<bar> \<le> 3" by (simp add: float_round6_def)
  then show "\<bar>fst (Mock_random_base_rate w)\<bar> \<le> 3"
    by (simp add: Mock_random_base_rate_def case_prod_beta)
  show "gen_random (snd (Mock_random_base_rate w)) = gen_random w"
    by (simp add: Mock_random_base_rate_def case_prod_beta)
qed

lemma Mock_get_base_rate_bound:
  assumes "unit_generator w" "bounded_config a"
  shows "\<bar>fst (Mock_get_base_rate a s t w)\<bar> \<le> 10 ^ 18"
    and "gen_random (snd (Mock_get_base_rate a s t w)) = gen_random w"
proof -
  have tab: "\<And>k r. map_of (base_rates a) k = Some r \<Longrightarrow> \<bar>r\<bar> \<le> 10 ^ 9"
    using assms(2) unfolding bounded_config_def by (fastforce dest: map_of_SomeD)
  have rnd: "\<bar>fst (Mock_random_base_rate w)\<bar> \<le> 10 ^ 18"
    using Mock_random_base_rate_bound(1) [OF assms(1)] by simp
  note g = Mock_random_base_rate_bound(2) [OF assms(1)]
  show "\<bar>fst (Mock_get_base_rate a s t w)\<bar> \<le> 10 ^ 18"
  proof (cases "map_of (base_rates a) (upper s, upper t)")
    case (Some r)
    then have "\<bar>r\<bar> \<le> 10 ^ 9" by (rule tab)
    then show ?thesis using Some by (simp add: Mock_get_base_rate_def)
  next
    case None
    show ?thesis
    proof (cases "upper s \<noteq> ''EUR'' \<and> truthy_decimal (map_of (base_rates a) (upper s, ''EUR''))
                  \<and> truthy_decimal (map_of (base_rates a) (''EUR'', upper t))")
      case True
      then obtain x y where xy: "map_of (base_rates a) (upper s, ''EUR'') = Some x"
        "map_of (base_rates a) (''EUR'', upper t) = Some y"
        by (auto simp: truthy_decimal_def split: option.splits)
      have "\<bar>x\<bar> * \<bar>y\<bar> \<le> 10 ^ 9 * 10 ^ 9"
        using tab [OF xy(1)] tab [OF xy(2)] by (intro mult_mono) simp_all
      then have "\<bar>x * y\<bar> \<le> 10 ^ 18" by (simp add: abs_mult)
      then show ?thesis using None True xy by (simp add: Mock_get_base_rate_def)
    next
      case False
      then show ?thesis using None rnd by (auto simp add: Mock_get_base_rate_def)
    qed
  qed
  show "gen_random (snd (Mock_get_base_rate a s t w)) = gen_random w"
    using g by (auto simp add: Mock_get_base_rate_def Let_def split: option.splits)
qed

lemma Mock_apply_variation_ok:
  assumes "unit_generator w" "\<bar>volatility a\<bar> \<le> 1" "\<bar>r\<bar> \<le> 10 ^ 18"
  shows "\<exists>y. fst (Mock_apply_variation a r d w) = Inr y"
proof -
  let ?w1 = "random_seed (date_factor d) w"
  have u1: "unit_generator ?w1"
    using assms(1) by (simp add: unit_generator_def random_seed_def)
  let ?v = "fst (random_uniform (- volatility a) (volatility a) ?w1)"
  have "\<bar>?v\<bar> \<le> \<bar>volatility a\<bar>" using u1 by (rule random_uniform_abs)
  with assms(2) have "\<bar>1 + ?v\<bar> \<le> 2" by linarith
  then have "\<bar>r\<bar> * \<bar>1 + ?v\<bar> \<le> 10 ^ 18 * 2"
    using assms(3) by (intro mult_mono) simp_all
  then have "\<bar>r * (1 + ?v)\<bar> \<le> 10 ^ 19" by (simp add: abs_mult)
  from decimal_round6_ok [OF this] obtain y where "decimal_round6 (r * (1 + ?v)) = Inr y" ..
  then show ?thesis
    by (simp add: Mock_apply_variation_def Let_def case_prod_beta)
qed

lemma mock_get_exchange_rate_returns:
  assumes "unit_generator w" "bounded_config a"
  shows "\<exists>q w'. Mock_get_exchange_rate a s t d w = (Inr q, w')
           \<and> source_currency q = upper s \<and> exchanged_currency q = upper t
           \<and> valuation_date q = d"
proof (cases "upper s = upper t")
  case True
  then show ?thesis by (simp add: Mock_get_exchange_rate_def)
next
  case False
  obtain r w1 where b: "Mock_get_base_rate a s t w = (r, w1)"
    by (cases "Mock_get_base_rate a s t w")
  have r: "\<bar>r\<bar> \<le> 10 ^ 18" and g: "gen_random w1 = gen_random w"
    using Mock_get_base_rate_bound [OF assms, of s t] b by simp_all
  have "unit_generator w1" using assms(1) g by (simp add: unit_generator_def)
  moreover have "\<bar>volatility a\<bar> \<le> 1" using assms(2) by (simp add: bounded_config_def)
  ultimately obtain y where "fst (Mock_apply_variation a r d w1) = Inr y"
    using Mock_apply_variation_ok r by blast
  then show ?thesis
    using False b
    by (cases "Mock_apply_variation a r d w1") (simp add: Mock_get_exchange_rate_def)
qed








section \<open>Properties of the failover orchestrator\<close>



lemma distinct_map_insort_key:
  "distinct (map g (insort_key f x xs)) = (g x \<notin> g ` set xs \<and> distinct (map g xs))"
  by (induction xs) (auto simp: set_insort_key)

lemma distinct_map_sort_key:
  "distinct (map g (sort_key f xs)) = distinct (map g xs)"
  by (induction xs) (simp_all add: distinct_map_insort_key)




lemmas beacon_eval = Beacon_get_exchange_rate_def Beacon_lookup_body_def Beacon_make_request_def
  Beacon_find_rates_def Beacon_normalize_error_def example_http_def Beacon_name_def
  example_world_def upper_def upper_char_def Let_def

lemma example_active_providers:
  "get_active_providers example_app = [beacon_provider, mock_provider]"
  by (simp add: get_active_providers_def example_app_def mock_provider_def idle_provider_def
      beacon_provider_def less_eq_prod_def)




lemma example_get_beacon:
  "get_adapter_for_provider beacon_provider example_app
     = (Inr BeaconA, example_app\<lparr>adapters_cache :=
          (adapters_cache example_app)((adapter_path beacon_provider, default_config) \<mapsto> BeaconA)\<rparr>)"
  by (simp add: get_adapter_for_provider_def get_adapter_def import_adapter_class_def
      construct_adapter_def beacon_provider_def example_app_def)









section \<open>Properties of the remote adapter\<close>

lemma make_request_world:
  "snd (Beacon_make_request req w) = w\<lparr>sent := sent w @ [req]\<rparr>"
  by (simp add: Beacon_make_request_def Let_def split: http_outcome.splits sum.splits bool.splits)

lemma lookup_body_sent:
  "sent (snd (Beacon_lookup_body s t rd ed w))
   = sent w @ [if today w \<le> ed then Latest s else Historical s ed]"
proof -
  let ?req = "if today w \<le> ed then Latest s else Historical s ed"
  obtain r where r: "Beacon_make_request ?req w = (r, w\<lparr>sent := sent w @ [?req]\<rparr>)"
    using make_request_world [of ?req w] by (metis prod.collapse)
  show ?thesis
    using r
    by (cases "today w \<le> ed")
       (simp_all add: Beacon_lookup_body_def Let_def split: sum.splits bool.splits)
qed

lemma lookup_body_date:
  assumes "fst (Beacon_lookup_body s t rd ed w) = Inr q"
  shows "valuation_date q = (if today w \<le> ed then today w else ed)"
proof -
  let ?req = "if today w \<le> ed then Latest s else Historical s ed"
  obtain r where r: "Beacon_make_request ?req w = (r, w\<lparr>sent := sent w @ [?req]\<rparr>)"
    using make_request_world [of ?req w] by (metis prod.collapse)
  show ?thesis
    using r assms
    by (cases "today w \<le> ed")
       (auto simp add: Beacon_lookup_body_def Let_def split: sum.splits bool.splits)
qed

text \<open>
  Claim C5. A single-date lookup of the remote adapter sends no request for a
  same-currency pair or on a cache hit, and otherwise exactly one: \<open>/latest\<close> when the
  requested date is today or later, \<open>/historical\<close> with the requested date when it is
  strictly in the past. So a future date is never forwarded to \<open>/historical\<close>, and
  the quote it yields is dated today (the clamped date); a past date yields a quote of
  that exact date.
\<close>

theorem beacon_date_resolution:
  "sent (snd (Beacon_get_exchange_rate s t d w))
   = sent w @ (if upper s = upper t \<or> cache w (upper s, upper t, d) \<noteq> None then []
               else [if today w \<le> d then Latest (upper s) else Historical (upper s) d])
   \<and> (\<forall>q. upper s \<noteq> upper t \<and> cache w (upper s, upper t, d) = None
          \<and> fst (Beacon_get_exchange_rate s t d w) = Inr q
        \<longrightarrow> valuation_date q = (if today w \<le> d then today w else d))"
proof -
  let ?ed = "if today w < d then today w else d"
  have ed: "(today w \<le> ?ed) = (today w \<le> d)" by auto
  have req: "(if today w \<le> ?ed then Latest (upper s) else Historical (upper s) ?ed)
             = (if today w \<le> d then Latest (upper s) else Historical (upper s) d)" by auto
  have dt: "(if today w \<le> ?ed then today w else ?ed) = (if today w \<le> d then today w else d)"
    by auto
  show ?thesis
  proof (cases "upper s = upper t \<or> cache w (upper s, upper t, d) \<noteq> None")
    case True
    then show ?thesis by (auto simp add: Beacon_get_exchange_rate_def Let_def)
  next
    case False
    obtain r w1 where b: "Beacon_lookup_body (upper s) (upper t) d ?ed w = (r, w1)"
      by (metis prod.collapse)
    have s1: "sent w1 = sent w @ [if today w \<le> d then Latest (upper s) else Historical (upper s) d]"
      using lookup_body_sent [of "upper s" "upper t" d ?ed w] b req by simp
    have d1: "\<And>q. r = Inr q \<Longrightarrow> valuation_date q = (if today w \<le> d then today w else d)"
      using lookup_body_date [of "upper s" "upper t" d ?ed w] b dt by simp
    show ?thesis
      using False b s1 d1
      by (cases r) (auto simp add: Beacon_get_exchange_rate_def Let_def)
  qed
qed

lemma example_beacon_future:
  "fst (Beacon_get_exchange_rate ''eur'' ''usd'' 738950 example_world)
   = Inr \<lparr>source_currency = ''EUR'', exchanged_currency = ''USD'', valuation_date = 738945,
           rate_value = 27 / 25, provider_name = ''CurrencyBeacon''\<rparr>"
  by (simp add: beacon_eval)

theorem beacon_date_resolution_witness:
  "upper ''eur'' \<noteq> upper ''usd'' \<and> cache example_world (upper ''eur'', upper ''usd'', 738950) = None
   \<and> today example_world < 738950
   \<and> sent (snd (Beacon_get_exchange_rate ''eur'' ''usd'' 738950 example_world)) = [Latest ''EUR'']
   \<and> fst (Beacon_get_exchange_rate ''eur'' ''usd'' 738950 example_world)
     = Inr \<lparr>source_currency = ''EUR'', exchanged_currency = ''USD'', valuation_date = 738945,
             rate_value = 27 / 25, provider_name = ''CurrencyBeacon''\<rparr>
   \<and> sent (snd (Beacon_get_exchange_rate ''eur'' ''usd'' 738944 example_world))
     = [Historical ''EUR'' 738944]"
proof -
  have h: "upper ''eur'' \<noteq> upper ''usd''" "upper ''eur'' = ''EUR''"
    "cache example_world (upper ''eur'', upper ''usd'', 738950) = None"
    "cache example_world (upper ''eur'', upper ''usd'', 738944) = None"
    "today example_world = 738945" "sent example_world = []"
    by (simp_all add: upper_def upper_char_def example_world_def)
  from beacon_date_resolution [of "''eur''" "''usd''" 738950 example_world] h
  have a: "sent (snd (Beacon_get_exchange_rate ''eur'' ''usd'' 738950 example_world))
           = [Latest ''EUR'']" by simp
  from beacon_date_resolution [of "''eur''" "''usd''" 738944 example_world] h
  have b: "sent (snd (Beacon_get_exchange_rate ''eur'' ''usd'' 738944 example_world))
           = [Historical ''EUR'' 738944]" by simp
  from a b h example_beacon_future show ?thesis by simp
qed

lemma fallback_loop_step:
  assumes "current_date \<le> end_date" "current_date \<le> td" "current_date < MAXORDINAL"
  shows "Beacon_fallback_loop source target end_date td results current_date error_count w
    = (case Beacon_fallback_step source target current_date results error_count w of
         (Break, w1) \<Rightarrow> (Inr results, w1)
       | (Continue results' error_count', w1) \<Rightarrow>
           Beacon_fallback_loop source target end_date td results' (current_date + 1)
             error_count' w1)"
proof -
  have nd: "add_day current_date = Inr (current_date + 1)"
    using assms(3) by (simp add: add_day_def)
  show ?thesis
    using assms(1,2)
    by (subst Beacon_fallback_loop.simps)
       (simp add: nd split: prod.splits fallback_step.splits)
qed

lemma fallback_loop_exit:
  "\<not> (current_date \<le> end_date \<and> current_date \<le> td) \<Longrightarrow>
   Beacon_fallback_loop source target end_date td results current_date error_count w
   = (Inr results, w)"
  by (subst Beacon_fallback_loop.simps) auto

text \<open>
  Claim C7. In one pass of the per-day loop (the date is within the range and not after
  today): a \<open>RateNotFoundError\<close> adds no quote, raises nothing and lets the loop go on
  with the next day and the error counter at zero; any other exception lets it go on
  with the counter incremented as long as the counter stays below 5, and ends the loop
  as soon as the counter reaches 5, the loop returning the quotes collected so far; a
  successful lookup appends its quote and resets the counter. What the loop returns is
  what \<open>_fallback_historical_rates\<close> returns, sorted by date.
\<close>

theorem beacon_fallback_error_policy:
  assumes "current_date \<le> end_date" "current_date \<le> td" "current_date < MAXORDINAL"
  shows "(\<forall>e w1. Beacon_fallback_try source target current_date w = (Inl e, w1)
            \<and> exn_class e = RateNotFoundError \<longrightarrow>
          Beacon_fallback_loop source target end_date td results current_date error_count w
          = Beacon_fallback_loop source target end_date td results (current_date + 1) 0 w1)
    \<and> (\<forall>e w1. Beacon_fallback_try source target current_date w = (Inl e, w1)
            \<and> exn_class e \<noteq> RateNotFoundError \<and> error_count + 1 < 5 \<longrightarrow>
          Beacon_fallback_loop source target end_date td results current_date error_count w
          = Beacon_fallback_loop source target end_date td results (current_date + 1)
              (error_count + 1) w1)
    \<and> (\<forall>e w1. Beacon_fallback_try source target current_date w = (Inl e, w1)
            \<and> exn_class e \<noteq> RateNotFoundError \<and> error_count + 1 \<ge> 5 \<longrightarrow>
          Beacon_fallback_loop source target end_date td results current_date error_count w
          = (Inr results, w1))
    \<and> (\<forall>q w1. Beacon_fallback_try source target current_date w = (Inr q, w1) \<longrightarrow>
          Beacon_fallback_loop source target end_date td results current_date error_count w
          = Beacon_fallback_loop source target end_date td (results @ [q]) (current_date + 1) 0 w1)
    \<and> (\<forall>start w0 rs w'.
          Beacon_fallback_loop source target end_date (today w0) [] start 0 w0 = (Inr rs, w') \<longrightarrow>
          Beacon_fallback_historical_rates source target start end_date w0
          = (Inr (sort_key valuation_date rs), w'))"
  unfolding fallback_loop_step [OF assms, of source target results error_count w]
  by (simp add: Beacon_fallback_step_def max_errors_def Beacon_fallback_historical_rates_def)


lemma example_try_timeout:
  "Beacon_fallback_try ''EUR'' ''USD'' 738930 example_world
   = (Inl (Exn ProviderUnavailableError ''CurrencyBeacon request timed out''),
      example_world\<lparr>sent := [Historical ''EUR'' 738930]\<rparr>)"
  by (simp add: Beacon_fallback_try_def beacon_eval)

lemma example_try_not_found:
  "Beacon_fallback_try ''EUR'' ''USD'' 738943 example_world
   = (Inl (Exn RateNotFoundError ''Rate not found''),
      example_world\<lparr>sent := [Historical ''EUR'' 738943]\<rparr>)"
  by (simp add: Beacon_fallback_try_def beacon_eval)

lemma example_fallback_abort:
  "Beacon_fallback_historical_rates ''EUR'' ''USD'' 738930 738945 example_world
   = (Inr [], example_world\<lparr>sent := [Historical ''EUR'' 738930, Historical ''EUR'' 738931,
        Historical ''EUR'' 738932, Historical ''EUR'' 738933, Historical ''EUR'' 738934]\<rparr>)"
  by (simp add: Beacon_fallback_historical_rates_def Beacon_fallback_step_def add_day_def
      Beacon_fallback_try_def beacon_eval MAXORDINAL_def max_errors_def
      Beacon_fallback_loop.simps)

lemma example_fallback_skip:
  "fst (Beacon_fallback_historical_rates ''EUR'' ''USD'' 738942 738945 example_world)
   = Inr [\<lparr>source_currency = ''EUR'', exchanged_currency = ''USD'', valuation_date = 738942,
            rate_value = 107 / 100, provider_name = ''CurrencyBeacon''\<rparr>,
          \<lparr>source_currency = ''EUR'', exchanged_currency = ''USD'', valuation_date = 738944,
            rate_value = 107 / 100, provider_name = ''CurrencyBeacon''\<rparr>,
          \<lparr>source_currency = ''EUR'', exchanged_currency = ''USD'', valuation_date = 738945,
            rate_value = 27 / 25, provider_name = ''CurrencyBeacon''\<rparr>]"
  by (simp add: Beacon_fallback_historical_rates_def Beacon_fallback_step_def add_day_def
      Beacon_fallback_try_def beacon_eval MAXORDINAL_def max_errors_def
      Beacon_fallback_loop.simps)

theorem beacon_fallback_error_policy_witness:
  "(738930::int) \<le> 738945 \<and> (738930::int) < MAXORDINAL
   \<and> Beacon_fallback_try ''EUR'' ''USD'' 738930 example_world
     = (Inl (Exn ProviderUnavailableError ''CurrencyBeacon request timed out''),
        example_world\<lparr>sent := [Historical ''EUR'' 738930]\<rparr>)
   \<and> Beacon_fallback_loop ''EUR'' ''USD'' 738945 738945 [] 738930 4 example_world
     = (Inr [], example_world\<lparr>sent := [Historical ''EUR'' 738930]\<rparr>)
   \<and> Beacon_fallback_loop ''EUR'' ''USD'' 738945 738945 [] 738930 3 example_world
     = Beacon_fallback_loop ''EUR'' ''USD'' 738945 738945 [] 738931 4
         (example_world\<lparr>sent := [Historical ''EUR'' 738930]\<rparr>)
   \<and> Beacon_fallback_try ''EUR'' ''USD'' 738943 example_world
     = (Inl (Exn RateNotFoundError ''Rate not found''),
        example_world\<lparr>sent := [Historical ''EUR'' 738943]\<rparr>)
   \<and> Beacon_fallback_loop ''EUR'' ''USD'' 738945 738945 [] 738943 3 example_world
     = Beacon_fallback_loop ''EUR'' ''USD'' 738945 738945 [] 738944 0
         (example_world\<lparr>sent := [Historical ''EUR'' 738943]\<rparr>)
   \<and> Beacon_fallback_historical_rates ''EUR'' ''USD'' 738930 738945 example_world
     = (Inr [], example_world\<lparr>sent := [Historical ''EUR'' 738930, Historical ''EUR'' 738931,
          Historical ''EUR'' 738932, Historical ''EUR'' 738933, Historical ''EUR'' 738934]\<rparr>)
   \<and> map valuation_date (projr (fst
         (Beacon_fallback_historical_rates ''EUR'' ''USD'' 738942 738945 example_world)))
     = [738942, 738944, 738945]"
proof -
  have h: "(738930::int) \<le> 738945" "(738930::int) < MAXORDINAL"
    "(738943::int) \<le> 738945" "(738943::int) < MAXORDINAL"
    by (simp_all add: MAXORDINAL_def)
  note a = beacon_fallback_error_policy [OF h(1) h(1) h(2), of "''EUR''" "''USD''" example_world]
  note b = beacon_fallback_error_policy [OF h(3) h(3) h(4), of "''EUR''" "''USD''" example_world]
  have "Beacon_fallback_loop ''EUR'' ''USD'' 738945 738945 [] 738930 4 example_world
     = (Inr [], example_world\<lparr>sent := [Historical ''EUR'' 738930]\<rparr>)"
    using a [of "[]" 4] example_try_timeout by simp
  moreover have "Beacon_fallback_loop ''EUR'' ''USD'' 738945 738945 [] 738930 3 example_world
     = Beacon_fallback_loop ''EUR'' ''USD'' 738945 738945 [] 738931 4
         (example_world\<lparr>sent := [Historical ''EUR'' 738930]\<rparr>)"
    using a [of "[]" 3] example_try_timeout by simp
  moreover have "Beacon_fallback_loop ''EUR'' ''USD'' 738945 738945 [] 738943 3 example_world
     = Beacon_fallback_loop ''EUR'' ''USD'' 738945 738945 [] 738944 0
         (example_world\<lparr>sent := [Historical ''EUR'' 738943]\<rparr>)"
    using b [of "[]" 3] example_try_not_found by simp
  ultimately show ?thesis
    using h example_try_timeout example_try_not_found example_fallback_abort
      example_fallback_skip
    by simp
qed


lemma upper_char_idem: "upper_char (upper_char c) = upper_char c"
  by (auto simp add: upper_char_def split: option.splits if_splits)

lemma upper_idem: "upper (upper s) = upper s"
  by (simp add: upper_def upper_char_idem)

lemma lookup_body_world:
  "snd (Beacon_lookup_body s t rd ed w)
   = (case fst (Beacon_lookup_body s t rd ed w) of
        Inl e \<Rightarrow> w\<lparr>sent := sent w @ [if today w \<le> ed then Latest s else Historical s ed]\<rparr>
      | Inr q \<Rightarrow> w\<lparr>sent := sent w @ [if today w \<le> ed then Latest s else Historical s ed],
                   cache := (cache w)((s, t, rd) \<mapsto> q)\<rparr>)"
proof -
  let ?req = "if today w \<le> ed then Latest s else Historical s ed"
  obtain r where r: "Beacon_make_request ?req w = (r, w\<lparr>sent := sent w @ [?req]\<rparr>)"
    using make_request_world [of ?req w] by (metis prod.collapse)
  show ?thesis
    using r
    by (cases "today w \<le> ed")
       (simp_all add: Beacon_lookup_body_def Let_def split: sum.splits bool.splits)
qed

lemma fallback_try_dated:
  assumes up: "upper s = s" "upper t = t"
    and inv: "cache_dated s t w" and d: "d \<le> today w"
    and run: "Beacon_fallback_try s t d w = (r, w1)"
  shows "cache_dated s t w1 \<and> today w1 = today w \<and> (\<forall>q. r = Inr q \<longrightarrow> valuation_date q = d)"
proof (cases "cache w (s, t, d)")
  case (Some c)
  with run have "r = Inr c" "w1 = w" by (simp_all add: Beacon_fallback_try_def)
  moreover from inv Some have "valuation_date c = d" by (simp add: cache_dated_def)
  ultimately show ?thesis using inv by simp
next
  case None
  show ?thesis
  proof (cases "s = t")
    case True
    with run None up show ?thesis
      using inv by (auto simp add: Beacon_fallback_try_def Beacon_get_exchange_rate_def)
  next
    case False
    let ?b = "Beacon_lookup_body s t d d w"
    have ed: "(if today w < d then today w else d) = d" using d by simp
    have dd: "(if today w \<le> d then today w else d) = d" using d by simp
    have run': "(case ?b of (Inl e, w1) \<Rightarrow> (Inl (Beacon_normalize_error e), w1)
                 | (Inr result, w1) \<Rightarrow> (Inr result, w1)) = (r, w1)"
      using run None False up
      by (simp add: Beacon_fallback_try_def Beacon_get_exchange_rate_def Let_def ed)
    show ?thesis
    proof (cases "fst ?b")
      case (Inl e)
      with lookup_body_world [of s t d d w]
      have "snd ?b = w\<lparr>sent := sent w @ [if today w \<le> d then Latest s else Historical s d]\<rparr>"
        by simp
      with run' Inl have "w1 = w\<lparr>sent := sent w @ [if today w \<le> d then Latest s else Historical s d]\<rparr>"
        "r = Inl (Beacon_normalize_error e)"
        by (cases ?b; simp)+
      then show ?thesis using inv by (simp add: cache_dated_def)
    next
      case (Inr q)
      with lookup_body_world [of s t d d w]
      have "snd ?b = w\<lparr>sent := sent w @ [if today w \<le> d then Latest s else Historical s d],
                       cache := (cache w)((s, t, d) \<mapsto> q)\<rparr>"
        by simp
      with run' Inr have w1: "w1 = w\<lparr>sent := sent w @ [if today w \<le> d then Latest s else Historical s d],
                       cache := (cache w)((s, t, d) \<mapsto> q)\<rparr>" and r: "r = Inr q"
        by (cases ?b; simp)+
      have "valuation_date q = d"
        using lookup_body_date [OF Inr] dd by simp
      then show ?thesis using inv w1 r by (simp add: cache_dated_def)
    qed
  qed
qed

lemma fallback_loop_dated:
  assumes "upper s = s" "upper t = t" "td = today w" "td < MAXORDINAL"
    and "cache_dated s t w"
    and "sorted_wrt (<) (map valuation_date results)"
    and "\<forall>q \<in> set results. valuation_date q < cur"
  shows "\<exists>rs w'. Beacon_fallback_loop s t e td results cur ec w = (Inr rs, w')
           \<and> sorted_wrt (<) (map valuation_date rs)"
  using assms
proof (induction s t e td results cur ec w rule: Beacon_fallback_loop.induct)
  case (1 s t e td results cur ec w)
  show ?case
  proof (cases "cur \<le> e \<and> cur \<le> td")
    case False
    then show ?thesis using "1.prems" by (simp add: fallback_loop_exit)
  next
    case True
    then have lt: "cur < MAXORDINAL" using "1.prems" by simp
    have nd: "add_day cur = Inr (cur + 1)" using lt by (simp add: add_day_def)
    obtain r w1 where tr: "Beacon_fallback_try s t cur w = (r, w1)" by (metis prod.collapse)
    from fallback_try_dated [OF "1.prems"(1,2,5) _ tr] True "1.prems"(3)
    have inv1: "cache_dated s t w1" and td1: "today w1 = today w"
      and dq: "\<And>q. r = Inr q \<Longrightarrow> valuation_date q = cur" by auto
    have "snd (Beacon_fallback_step s t cur results ec w) = w1"
      using tr by (simp add: Beacon_fallback_step_def split: sum.splits)
    then obtain stp where stp: "Beacon_fallback_step s t cur results ec w = (stp, w1)"
      by (metis prod.collapse)
    show ?thesis
    proof (cases stp)
      case Break
      then show ?thesis
        using True lt stp "1.prems"(6) by (simp add: fallback_loop_step)
    next
      case (Continue rs' ec')
      have rs': "sorted_wrt (<) (map valuation_date rs')
                 \<and> (\<forall>q \<in> set rs'. valuation_date q < cur + 1)"
      proof (cases r)
        case (Inl e)
        with stp tr Continue have "rs' = results"
          by (auto simp add: Beacon_fallback_step_def split: if_splits)
        then show ?thesis using "1.prems"(6,7) by auto
      next
        case (Inr q)
        with stp tr Continue have "rs' = results @ [q]"
          by (auto simp add: Beacon_fallback_step_def)
        moreover have "valuation_date q = cur" using dq Inr by simp
        ultimately show ?thesis
          using "1.prems"(6,7) by (auto simp add: sorted_wrt_append)
      qed
      have "\<exists>rs w'. Beacon_fallback_loop s t e td rs' (cur + 1) ec' w1 = (Inr rs, w')
              \<and> sorted_wrt (<) (map valuation_date rs)"
        using "1.IH" [OF True stp [symmetric] Continue nd "1.prems"(1,2)] 
          "1.prems"(3,4) td1 inv1 rs' by simp
      then show ?thesis
        using True lt stp Continue by (simp add: fallback_loop_step)
    qed
  qed
qed

lemma fallback_loop_returns:
  assumes "td < MAXORDINAL"
  shows "\<exists>rs w'. Beacon_fallback_loop s t e td results cur ec w = (Inr rs, w')"
  using assms
proof (induction s t e td results cur ec w rule: Beacon_fallback_loop.induct)
  case (1 s t e td results cur ec w)
  show ?case
  proof (cases "cur \<le> e \<and> cur \<le> td")
    case False
    then show ?thesis by (simp add: fallback_loop_exit)
  next
    case True
    then have lt: "cur < MAXORDINAL" using "1.prems" by simp
    have nd: "add_day cur = Inr (cur + 1)" using lt by (simp add: add_day_def)
    obtain stp w1 where stp: "Beacon_fallback_step s t cur results ec w = (stp, w1)"
      by (metis prod.collapse)
    show ?thesis
    proof (cases stp)
      case Break
      then show ?thesis using True lt stp by (simp add: fallback_loop_step)
    next
      case (Continue rs' ec')
      have "\<exists>rs w'. Beacon_fallback_loop s t e td rs' (cur + 1) ec' w1 = (Inr rs, w')"
        using "1.IH" [OF True stp [symmetric] Continue nd] "1.prems" by simp
      then show ?thesis using True lt stp Continue by (simp add: fallback_loop_step)
    qed
  qed
qed

text \<open>
  The first two parts of claim C6 hold for every state of the cache: when the range is
  not empty and does not start in the future, the \<open>/timeseries\<close> request returns a body
  and the rates container of that body is a list, \<open>get_historical_rates\<close> returns what
  the per-day path returns for the range clamped to today, and that is a list sorted
  ascending by valuation date (today being before \<open>date.max\<close>, so that stepping to the
  next day cannot overflow).
\<close>

lemma beacon_list_response_fallback:
  assumes range: "start_date \<le> end_date" "start_date \<le> today w" "today w < MAXORDINAL"
    and req: "Beacon_make_request
                (Timeseries (upper s) start_date (min end_date (today w)) (upper t)) w
              = (Inr data, w1)"
    and lst: "timeseries_container data = Inr (JList xs)"
  shows "Beacon_get_historical_rates s t start_date end_date w
         = Beacon_fallback_historical_rates (upper s) (upper t) start_date
             (min end_date (today w)) w1
    \<and> (\<exists>rs w'. Beacon_fallback_loop (upper s) (upper t) (min end_date (today w)) (today w)
                   [] start_date 0 w1 = (Inr rs, w')
          \<and> Beacon_get_historical_rates s t start_date end_date w
            = (Inr (sort_key valuation_date rs), w')
          \<and> sorted (map valuation_date (sort_key valuation_date rs)))"
proof -
  let ?e = "min end_date (today w)"
  have e: "(if today w < end_date then today w else end_date) = ?e" by (simp add: min_def)
  have w1: "w1 = w\<lparr>sent := sent w @ [Timeseries (upper s) start_date ?e (upper t)]\<rparr>"
    using make_request_world [of "Timeseries (upper s) start_date ?e (upper t)" w] req by simp
  have td1: "today w1 = today w" using w1 by simp
  from fallback_loop_returns [OF range(3)]
  obtain rs w' where loop:
    "Beacon_fallback_loop (upper s) (upper t) ?e (today w) [] start_date 0 w1 = (Inr rs, w')"
    by blast
  have fb: "Beacon_fallback_historical_rates (upper s) (upper t) start_date ?e w1
            = (Inr (sort_key valuation_date rs), w')"
    using loop by (simp add: Beacon_fallback_historical_rates_def td1)
  have att: "Beacon_timeseries_attempt (upper s) (upper t) start_date ?e w
             = (Inr (sort_key valuation_date rs), w')"
    using req lst fb by (simp add: Beacon_timeseries_attempt_def)
  have run: "Beacon_get_historical_rates s t start_date end_date w
             = (Inr (sort_key valuation_date rs), w')"
    using range(1,2) att by (simp add: Beacon_get_historical_rates_def Let_def e)
  show ?thesis using run fb loop by simp
qed

text \<open>
  The third part holds when every quote that the cache holds for the pair is stored
  under the date it carries: then the per-day path collects quotes of strictly
  increasing dates.
\<close>

lemma beacon_list_response_distinct:
  assumes range: "start_date \<le> end_date" "start_date \<le> today w" "today w < MAXORDINAL"
    and req: "Beacon_make_request
                (Timeseries (upper s) start_date (min end_date (today w)) (upper t)) w
              = (Inr data, w1)"
    and lst: "timeseries_container data = Inr (JList xs)"
    and inv: "cache_dated (upper s) (upper t) w"
  shows "\<exists>qs w'. Beacon_get_historical_rates s t start_date end_date w = (Inr qs, w')
          \<and> sorted (map valuation_date qs) \<and> distinct (map valuation_date qs)"
proof -
  let ?e = "min end_date (today w)"
  have w1: "w1 = w\<lparr>sent := sent w @ [Timeseries (upper s) start_date ?e (upper t)]\<rparr>"
    using make_request_world [of "Timeseries (upper s) start_date ?e (upper t)" w] req by simp
  have inv1: "cache_dated (upper s) (upper t) w1" and td1: "today w1 = today w"
    using inv w1 by (simp_all add: cache_dated_def)
  from fallback_loop_dated [OF upper_idem upper_idem td1 [symmetric] _ inv1, of "[]"
      start_date ?e 0] range(3)
  obtain rs w' where loop:
    "Beacon_fallback_loop (upper s) (upper t) ?e (today w) [] start_date 0 w1 = (Inr rs, w')"
    and srt: "sorted_wrt (<) (map valuation_date rs)"
    by (auto simp add: td1)
  from beacon_list_response_fallback [OF range req lst] loop
  have run: "Beacon_get_historical_rates s t start_date end_date w
             = (Inr (sort_key valuation_date rs), w')"
    by auto
  have "distinct (map valuation_date rs)"
    using srt by (simp add: strict_sorted_iff)
  then have "distinct (map valuation_date (sort_key valuation_date rs))"
    by (simp add: distinct_map_sort_key)
  then show ?thesis using run by simp
qed

text \<open>
  A run with a cache that holds a quote for one day of the range: the quote of day
  738944 is read from the cache (its rate is not one the upstream service gives, and no
  request is sent for that day), day 738943 has no rate for the target and is skipped.
\<close>

lemma example_timeseries_request:
  "Beacon_make_request (Timeseries (upper ''eur'') 738942 (min 738950 (today cached_world))
      (upper ''usd'')) cached_world
   = (Inr (JDict [(''response'', JList [])]),
      cached_world\<lparr>sent := [Timeseries ''EUR'' 738942 738945 ''USD'']\<rparr>)"
  by (simp add: beacon_eval cached_world_def)

lemma example_container: "timeseries_container (JDict [(''response'', JList [])]) = Inr (JList [])"
  by (simp add: timeseries_container_def)

lemma example_cache_dated: "cache_dated (upper ''eur'') (upper ''usd'') cached_world"
  by (simp add: cache_dated_def cached_world_def example_world_def)

lemma example_fallback_after_timeseries:
  "Beacon_fallback_historical_rates ''EUR'' ''USD'' 738942 738945
     (cached_world\<lparr>sent := [Timeseries ''EUR'' 738942 738945 ''USD'']\<rparr>)
   = (Inr [\<lparr>source_currency = ''EUR'', exchanged_currency = ''USD'', valuation_date = 738942,
             rate_value = 107 / 100, provider_name = ''CurrencyBeacon''\<rparr>,
           \<lparr>source_currency = ''EUR'', exchanged_currency = ''USD'', valuation_date = 738944,
             rate_value = 109 / 100, provider_name = ''CurrencyBeacon''\<rparr>,
           \<lparr>source_currency = ''EUR'', exchanged_currency = ''USD'', valuation_date = 738945,
             rate_value = 108 / 100, provider_name = ''CurrencyBeacon''\<rparr>],
      cached_world\<lparr>sent := [Timeseries ''EUR'' 738942 738945 ''USD'', Historical ''EUR'' 738942,
                               Historical ''EUR'' 738943, Latest ''EUR''],
        cache := (cache cached_world)
          ((''EUR'', ''USD'', 738942) \<mapsto>
             \<lparr>source_currency = ''EUR'', exchanged_currency = ''USD'', valuation_date = 738942,
              rate_value = 107 / 100, provider_name = ''CurrencyBeacon''\<rparr>,
           (''EUR'', ''USD'', 738945) \<mapsto>
             \<lparr>source_currency = ''EUR'', exchanged_currency = ''USD'', valuation_date = 738945,
              rate_value = 108 / 100, provider_name = ''CurrencyBeacon''\<rparr>)\<rparr>)"
  by (simp add: Beacon_fallback_historical_rates_def Beacon_fallback_step_def add_day_def
      Beacon_fallback_try_def beacon_eval cached_world_def MAXORDINAL_def max_errors_def
      Beacon_fallback_loop.simps)

lemma example_list_response:
  "cache cached_world (''EUR'', ''USD'', 738944) \<noteq> None
   \<and> map valuation_date (projr (fst
        (Beacon_get_historical_rates ''eur'' ''usd'' 738942 738950 cached_world)))
     = [738942, 738944, 738945]
   \<and> map rate_value (projr (fst
        (Beacon_get_historical_rates ''eur'' ''usd'' 738942 738950 cached_world)))
     = [107 / 100, 109 / 100, 108 / 100]
   \<and> sent (snd (Beacon_get_historical_rates ''eur'' ''usd'' 738942 738950 cached_world))
     = [Timeseries ''EUR'' 738942 738945 ''USD'', Historical ''EUR'' 738942,
        Historical ''EUR'' 738943, Latest ''EUR'']"
proof -
  have h: "(738942::int) \<le> 738950" "738942 \<le> today cached_world"
    "today cached_world < MAXORDINAL"
    by (simp_all add: cached_world_def example_world_def MAXORDINAL_def)
  have u: "upper ''eur'' = ''EUR''" "upper ''usd'' = ''USD''"
    "min 738950 (today cached_world) = 738945"
    by (simp_all add: upper_def upper_char_def cached_world_def example_world_def)
  from beacon_list_response_fallback [OF h example_timeseries_request example_container]
  have "Beacon_get_historical_rates ''eur'' ''usd'' 738942 738950 cached_world
        = Beacon_fallback_historical_rates ''EUR'' ''USD'' 738942 738945
            (cached_world\<lparr>sent := [Timeseries ''EUR'' 738942 738945 ''USD'']\<rparr>)"
    by (simp add: u)
  then show ?thesis
    using example_fallback_after_timeseries by (simp add: cached_world_def)
qed

lemma example_list_response_distinct:
  "distinct (map valuation_date (projr (fst
     (Beacon_get_historical_rates ''eur'' ''usd'' 738942 738950 cached_world))))"
  using beacon_list_response_distinct [OF _ _ _ example_timeseries_request example_container
      example_cache_dated]
  by (auto simp add: cached_world_def example_world_def MAXORDINAL_def)

lemma stale_world_eq:
  "stale_world = example_world\<lparr>today := 738946, sent := [Latest ''EUR''],
     cache := (cache example_world)((''EUR'', ''USD'', 738946) \<mapsto>
       \<lparr>source_currency = ''EUR'', exchanged_currency = ''USD'', valuation_date = 738945,
        rate_value = 27 / 25, provider_name = ''CurrencyBeacon''\<rparr>)\<rparr>"
  by (simp add: stale_world_def beacon_eval)

text \<open>
  Claim C6 requires that the list returned after a list-shaped \<open>/timeseries\<close> answer has
  no two quotes of the same date. The per-day path appends what the cache holds for a
  day without looking at the date of the quote, and \<open>get_exchange_rate\<close> builds its
  cache key from the requested date before it clamps a future date to today, so that it
  stores a quote dated today under the key of a later day (the two other writers of the
  cache build the key from the date of the quote). After a lookup of EUR/USD for day
  738946 made on day 738945, the cache holds a quote dated 738945 under day 738946, and
  \<open>get_historical_rates\<close> for the range from 738945 to 738946, called on day 738946
  with the \<open>/timeseries\<close> answer a list, returns two quotes dated 738945: one fetched for
  that day and one read from the cache entry of the day after.
\<close>

theorem beacon_list_response_duplicate_dates:
  "valuation_date (projr (fst (Beacon_get_exchange_rate ''eur'' ''usd'' 738946 example_world)))
   = 738945
   \<and> map_option valuation_date (cache stale_world (''EUR'', ''USD'', 738946)) = Some 738945
   \<and> http stale_world (Timeseries ''EUR'' 738945 738946 ''USD'')
     = Body (JDict [(''response'', JList [])])
   \<and> timeseries_container (JDict [(''response'', JList [])]) = Inr (JList [])
   \<and> map valuation_date (projr (fst
        (Beacon_get_historical_rates ''eur'' ''usd'' 738945 738946 stale_world)))
     = [738945, 738945]"
  by (simp add: stale_world_eq timeseries_container_def Beacon_get_historical_rates_def
      Beacon_timeseries_attempt_def
      Beacon_fallback_historical_rates_def Beacon_fallback_step_def add_day_def
      Beacon_fallback_try_def beacon_eval MAXORDINAL_def max_errors_def
      Beacon_fallback_loop.simps)

text \<open>
  Claim C9 describes what a successful \<open>get_exchange_rates_for_date\<close> returns. The
  remote adapter's implementation never succeeds: whatever the upstream answers, the
  \<open>try\<close> block reads the local \<open>rates\<close> before any assignment to it, and the handler
  turns the resulting exception (as it does a failed request) into
  \<open>ProviderUnavailableError\<close>.
\<close>

theorem beacon_rates_for_date_always_fails:
  "\<exists>w'. Beacon_get_exchange_rates_for_date s d target_currencies w
        = (Inl (Exn ProviderUnavailableError ''Failed to get rates''), w')"
proof -
  have "\<exists>e w1. Beacon_rates_for_date_body (upper s) ed target_currencies w = (Inl e, w1)" for ed
    by (simp add: Beacon_rates_for_date_body_def read_local_def Let_def
        split: prod.splits sum.splits)
  then obtain e w1 where
    "Beacon_rates_for_date_body (upper s) (if today w < d then today w else d)
       target_currencies w = (Inl e, w1)"
    by blast
  then show ?thesis
    by (simp add: Beacon_get_exchange_rates_for_date_def Let_def)
qed


lemma mock_get_exchange_rate_generator:
  "gen_random (snd (Mock_get_exchange_rate a s t d w)) = gen_random w"
proof -
  have b: "gen_random (snd (Mock_get_base_rate a s t w)) = gen_random w"
    by (simp add: Mock_get_base_rate_def Mock_random_base_rate_def Let_def case_prod_beta
        split: option.splits)
  have v: "gen_random (snd (Mock_apply_variation a r d w0)) = gen_random w0" for r w0
    by (simp add: Mock_apply_variation_def Let_def case_prod_beta random_reseed_def
        random_seed_def random_uniform_def)
  show ?thesis
    using b v [of "fst (Mock_get_base_rate a s t w)" "snd (Mock_get_base_rate a s t w)"]
    by (simp add: Mock_get_exchange_rate_def Let_def case_prod_beta split: sum.splits)
qed

lemma mock_rates_loop_targets:
  assumes "unit_generator w" "bounded_config a"
  shows "\<exists>qs w'. Mock_rates_loop a s d targets results w = (Inr qs, w')
           \<and> map exchanged_currency qs
             = map exchanged_currency results
               @ map upper (filter (\<lambda>t. upper t \<noteq> upper s) targets)"
  using assms(1)
proof (induction targets arbitrary: results w)
  case Nil
  then show ?case by simp
next
  case (Cons t targets)
  show ?case
  proof (cases "upper t \<noteq> upper s")
    case False
    then show ?thesis using Cons.IH [OF Cons.prems, of results] by simp
  next
    case True
    from mock_get_exchange_rate_returns [OF Cons.prems assms(2), of s t d]
    obtain q w1 where q: "Mock_get_exchange_rate a s t d w = (Inr q, w1)"
      "exchanged_currency q = upper t" by blast
    have "gen_random w1 = gen_random w"
      using mock_get_exchange_rate_generator [of a s t d w] q(1) by simp
    then have "unit_generator w1" using Cons.prems by (simp add: unit_generator_def)
    from Cons.IH [OF this, of "results @ [q]"] show ?thesis
      using True q by simp
  qed
qed

lemma mock_rates_for_date_targets:
  assumes "unit_generator w" "bounded_config a"
  shows "\<exists>qs w'. Mock_get_exchange_rates_for_date a s d (Some targets) w = (Inr qs, w')
           \<and> map exchanged_currency qs = map upper (filter (\<lambda>t. upper t \<noteq> upper s) targets)"
  using mock_rates_loop_targets [OF assms, of s d targets "[]"]
  by (simp add: Mock_get_exchange_rates_for_date_def)

text \<open>
  Claim C8 requires an input error from every implementation when the start date is
  after the end date. The remote adapter raises \<open>ValueError\<close>; the synthetic generator
  returns the empty list, here for the range from 738945 back to 738940. (Whenever
  either implementation succeeds, its list is ascending by date: see
  \<open>beacon_historical_sorted\<close> and \<open>mock_historical_sorted\<close> below.)
\<close>

theorem mock_historical_reversed_range:
  "Mock_get_historical_rates a ''EUR'' ''USD'' 738945 738940 w = (Inr [], w)"
  by (simp add: Mock_get_historical_rates_def Mock_historical_loop.simps)

lemma beacon_historical_invalid_range:
  "end_date < start_date \<Longrightarrow>
   Beacon_get_historical_rates s t start_date end_date w
   = (Inl (Exn ValueError ''start_date must be before end_date''), w)"
  by (simp add: Beacon_get_historical_rates_def)

lemma fallback_historical_sorted:
  "Beacon_fallback_historical_rates s t a b w = (Inr qs, w') \<Longrightarrow> sorted (map valuation_date qs)"
  by (auto simp add: Beacon_fallback_historical_rates_def split: prod.splits sum.splits)

lemma timeseries_attempt_sorted:
  assumes "Beacon_timeseries_attempt s t a b w = (Inr qs, w')"
  shows "sorted (map valuation_date qs)"
  using assms
  by (auto simp add: Beacon_timeseries_attempt_def Let_def
      split: prod.splits sum.splits json.splits if_splits
      dest: fallback_historical_sorted)

lemma beacon_historical_sorted:
  assumes "Beacon_get_historical_rates s t start_date end_date w = (Inr qs, w')"
  shows "sorted (map valuation_date qs)"
  using assms
  by (auto simp add: Beacon_get_historical_rates_def Let_def
      split: prod.splits sum.splits if_splits
      dest: fallback_historical_sorted timeseries_attempt_sorted)

lemma mock_get_exchange_rate_date:
  "Mock_get_exchange_rate a s t d w = (Inr q, w') \<Longrightarrow>
   valuation_date q = d \<and> exchanged_currency q = upper t \<and> source_currency q = upper s"
  by (auto simp add: Mock_get_exchange_rate_def Let_def split: prod.splits sum.splits if_splits)

lemma mock_historical_loop_sorted:
  assumes "Mock_historical_loop a s t e results cur w = (Inr qs, w')"
    and "sorted_wrt (<) (map valuation_date results)"
    and "\<forall>q \<in> set results. valuation_date q < cur"
  shows "sorted_wrt (<) (map valuation_date qs)"
  using assms
proof (induction a s t e results cur w rule: Mock_historical_loop.induct)
  case (1 a s t e results cur w)
  show ?case
  proof (cases "cur \<le> e")
    case False
    with "1.prems" show ?thesis by (simp add: Mock_historical_loop.simps)
  next
    case True
    obtain r w1 where g: "Mock_get_exchange_rate a s t cur w = (r, w1)" by (metis prod.collapse)
    from "1.prems"(1) True g obtain q where q: "r = Inr q"
      by (cases r) (simp_all add: Mock_historical_loop.simps)
    from "1.prems"(1) True g q obtain nd where nd: "add_day cur = Inr nd"
      by (cases "add_day cur") (simp_all add: Mock_historical_loop.simps)
    then have nd': "nd = cur + 1" by (simp add: add_day_def split: if_splits)
    have dq: "valuation_date q = cur" using mock_get_exchange_rate_date g q by blast
    have rec: "Mock_historical_loop a s t e (results @ [q]) nd w1 = (Inr qs, w')"
      using "1.prems"(1) True g q nd by (simp add: Mock_historical_loop.simps)
    have A: "sorted_wrt (<) (map valuation_date (results @ [q]))"
      using "1.prems"(2,3) dq by (simp add: sorted_wrt_append)
    have B: "\<forall>x \<in> set (results @ [q]). valuation_date x < nd"
      using "1.prems"(3) dq nd' by auto
    show ?thesis by (rule "1.IH" [OF True g [symmetric] q nd rec A B])
  qed
qed

lemma mock_historical_sorted:
  assumes "Mock_get_historical_rates a s t start_date end_date w = (Inr qs, w')"
  shows "sorted (map valuation_date qs)"
  using mock_historical_loop_sorted [of a s t end_date "[]" start_date w qs w'] assms
  by (simp add: Mock_get_historical_rates_def strict_sorted_iff)

section \<open>Properties of the resolution service\<close>

lemma matches_key_row_key: "matches_key s t d r = (row_key r = (s, t, d))"
  by (auto simp add: matches_key_def row_key_def)

lemma filter_key_empty:
  "filter (matches_key s t d) rows = [] \<Longrightarrow> (s, t, d) \<notin> set (map row_key rows)"
  by (auto simp add: filter_empty_conv matches_key_row_key)

lemma filter_key_distinct:
  "distinct (map row_key rows) \<Longrightarrow> length (filter (matches_key s t d) rows) \<le> 1"
proof (induction rows)
  case Nil
  then show ?case by simp
next
  case (Cons r rows)
  show ?case
  proof (cases "matches_key s t d r")
    case True
    with Cons.prems have "(s, t, d) \<notin> set (map row_key rows)"
      by (simp add: matches_key_row_key)
    then have "filter (matches_key s t d) rows = []"
      by (force simp add: filter_empty_conv matches_key_row_key)
    with True show ?thesis by simp
  next
    case False
    with Cons show ?thesis by simp
  qed
qed

lemma update_keeps_key:
  "row_key \<circ> (\<lambda>x. if matches_key s t d x then x\<lparr>row_rate := rate\<rparr> else x) = row_key"
  by (rule ext) (simp add: row_key_def)

lemma filter_update_rows:
  "filter (matches_key s t d)
     (map (\<lambda>x. if matches_key s t d x then x\<lparr>row_rate := rate\<rparr> else x) rows)
   = map (\<lambda>x. x\<lparr>row_rate := rate\<rparr>) (filter (matches_key s t d) rows)"
  by (induction rows) (simp_all add: matches_key_def)

lemma update_or_create_refused:
  assumes "unique_rows st" "column_store (db_adapts_decimals st) rate = Inl e"
  shows "update_or_create s t d rate st = (Inl e, st)"
proof -
  let ?f = "filter (matches_key s t d) (db_rates st)"
  from assms(1) have "length ?f \<le> 1" unfolding unique_rows_def by (rule filter_key_distinct)
  then show ?thesis
    using assms(2) by (cases ?f) (auto simp add: update_or_create_def split: list.splits)
qed

lemma update_or_create_stored:
  assumes "unique_rows st" "column_store (db_adapts_decimals st) rate = Inr v"
  shows "\<exists>st'. update_or_create s t d rate st
           = (Inr \<lparr>row_source = s, row_target = t, row_date = d, row_rate = rate\<rparr>, st')
         \<and> unique_rows st'
         \<and> filter (matches_key s t d) (db_rates st')
           = [\<lparr>row_source = s, row_target = t, row_date = d, row_rate = v\<rparr>]
         \<and> db_currencies st' = db_currencies st
         \<and> db_adapts_decimals st' = db_adapts_decimals st"
proof -
  let ?f = "filter (matches_key s t d) (db_rates st)"
  from assms(1) have len: "length ?f \<le> 1" unfolding unique_rows_def by (rule filter_key_distinct)
  show ?thesis
  proof (cases ?f)
    case Nil
    then have "(s, t, d) \<notin> set (map row_key (db_rates st))" by (rule filter_key_empty)
    then show ?thesis
      using Nil assms
      by (simp add: update_or_create_def unique_rows_def matches_key_def row_key_def)
  next
    case (Cons r rest)
    with len have rest: "rest = []" by simp
    have "r \<in> set ?f" using Cons by simp
    then have mk: "matches_key s t d r" by simp
    then have r: "r\<lparr>row_rate := x\<rparr>
                  = \<lparr>row_source = s, row_target = t, row_date = d, row_rate = x\<rparr>" for x
      by (cases r) (simp add: matches_key_def)
    show ?thesis
      using Cons rest assms r
      by (simp add: update_or_create_def unique_rows_def update_keeps_key filter_update_rows)
  qed
qed

lemma update_or_create_frame:
  assumes "unique_rows st"
  shows "unique_rows (snd (update_or_create s t d rate st))
    \<and> db_currencies (snd (update_or_create s t d rate st)) = db_currencies st
    \<and> db_adapts_decimals (snd (update_or_create s t d rate st)) = db_adapts_decimals st"
proof (cases "column_store (db_adapts_decimals st) rate")
  case (Inl e)
  then show ?thesis using update_or_create_refused [OF assms Inl, of s t d] assms by simp
next
  case (Inr v)
  then show ?thesis using update_or_create_stored [OF assms Inr, of s t d] by auto
qed

lemma update_or_create_preserves:
  "unique_rows st \<Longrightarrow> unique_rows (snd (update_or_create s t d rate st))"
  using update_or_create_frame by blast

lemma filter_eq_distinct:
  "distinct xs \<Longrightarrow> c \<in> set xs \<Longrightarrow> filter (\<lambda>x. x = c) xs = [c]"
  by (induction xs) (auto simp add: filter_empty_conv)

lemma Currency_get_known:
  "unique_codes st \<Longrightarrow> c \<in> set (db_currencies st) \<Longrightarrow> Currency_get c st = Inr c"
  by (simp add: Currency_get_def unique_codes_def filter_eq_distinct)

lemma run_operation_db:
  "db_rates (snd (run_operation operation ad st)) = db_rates st"
  "db_currencies (snd (run_operation operation ad st)) = db_currencies st"
  by (simp_all add: run_operation_def case_prod_beta)

lemma get_adapter_db:
  "db_rates (snd (get_adapter_for_provider p st)) = db_rates st"
  "db_currencies (snd (get_adapter_for_provider p st)) = db_currencies st"
  by (simp_all add: get_adapter_for_provider_def get_adapter_def case_prod_beta Let_def
      split: option.splits sum.splits)

lemma failover_loop_db:
  "db_rates (snd (failover_loop operation ps last_error calls st)) = db_rates st
   \<and> db_currencies (snd (failover_loop operation ps last_error calls st)) = db_currencies st"
proof (induction ps arbitrary: last_error calls st)
  case Nil
  then show ?case by simp
next
  case (Cons p ps)
  obtain ra st1 where ga: "get_adapter_for_provider p st = (ra, st1)" by (metis prod.collapse)
  have st1: "db_rates st1 = db_rates st" "db_currencies st1 = db_currencies st"
    using get_adapter_db [of p st] ga by simp_all
  show ?case
  proof (cases ra)
    case (Inl e)
    then show ?thesis using ga st1 Cons.IH by simp
  next
    case (Inr ad)
    obtain ro st2 where ro: "run_operation operation ad st1 = (ro, st2)" by (metis prod.collapse)
    have st2: "db_rates st2 = db_rates st" "db_currencies st2 = db_currencies st"
      using run_operation_db [of operation ad st1] ro st1 by simp_all
    show ?thesis using ga Inr ro st2 Cons.IH by (cases ro) simp_all
  qed
qed

lemma execute_with_failover_db:
  "db_rates (snd (execute_with_failover operation st)) = db_rates st"
  "db_currencies (snd (execute_with_failover operation st)) = db_currencies st"
  using failover_loop_db [of operation "get_active_providers st" None "[]" st]
  by (simp_all add: execute_with_failover_def execute_with_failover_calls_def Let_def
      case_prod_beta)

lemma named_provider_db:
  "db_rates (snd (case get_adapter_for_provider provider st of
                    (Inl e, st1) \<Rightarrow> (Inl e, st1)
                  | (Inr ad, st1) \<Rightarrow> run_operation operation ad st1)) = db_rates st
   \<and> db_currencies (snd (case get_adapter_for_provider provider st of
                    (Inl e, st1) \<Rightarrow> (Inl e, st1)
                  | (Inr ad, st1) \<Rightarrow> run_operation operation ad st1)) = db_currencies st"
proof -
  obtain ra st1 where ga: "get_adapter_for_provider provider st = (ra, st1)"
    by (metis prod.collapse)
  have st1: "db_rates st1 = db_rates st" "db_currencies st1 = db_currencies st"
    using get_adapter_db [of provider st] ga by simp_all
  show ?thesis
    using ga st1 run_operation_db [of operation _ st1] by (cases ra) simp_all
qed

lemma fetch_from_provider_db:
  "db_rates (snd (fetch_from_provider s t d p st)) = db_rates st"
  "db_currencies (snd (fetch_from_provider s t d p st)) = db_currencies st"
proof -
  let ?op = "adapter_get_exchange_rate s t d"
  show "db_rates (snd (fetch_from_provider s t d p st)) = db_rates st"
  proof (cases "truthy_name p")
    case False
    then show ?thesis
      using execute_with_failover_db(1) [of ?op st]
      by (simp add: fetch_from_provider_def Let_def)
  next
    case True
    show ?thesis
    proof (cases "Provider_get (the p) st")
      case (Inl e)
      with True show ?thesis by (simp add: fetch_from_provider_def Let_def)
    next
      case (Inr provider)
      with True show ?thesis
        using named_provider_db [where provider = provider and st = st and operation = ?op]
        by (simp add: fetch_from_provider_def Let_def)
    qed
  qed
  show "db_currencies (snd (fetch_from_provider s t d p st)) = db_currencies st"
  proof (cases "truthy_name p")
    case False
    then show ?thesis
      using execute_with_failover_db(2) [of ?op st]
      by (simp add: fetch_from_provider_def Let_def)
  next
    case True
    show ?thesis
    proof (cases "Provider_get (the p) st")
      case (Inl e)
      with True show ?thesis by (simp add: fetch_from_provider_def Let_def)
    next
      case (Inr provider)
      with True show ?thesis
        using named_provider_db [where provider = provider and st = st and operation = ?op]
        by (simp add: fetch_from_provider_def Let_def)
    qed
  qed
qed

lemma save_rate_to_db_frame:
  assumes "unique_rows st"
  shows "unique_rows (snd (save_rate_to_db result st))
    \<and> db_currencies (snd (save_rate_to_db result st)) = db_currencies st
    \<and> db_adapts_decimals (snd (save_rate_to_db result st)) = db_adapts_decimals st"
  using assms update_or_create_frame [OF assms]
  by (auto simp add: save_rate_to_db_def split: sum.splits)

lemma save_rate_to_db_unique:
  "unique_rows st \<Longrightarrow> unique_rows (snd (save_rate_to_db result st))"
  using save_rate_to_db_frame by blast

lemma bulk_save_loop_unique:
  "unique_rows st \<Longrightarrow> unique_rows (snd (bulk_save_loop results saved st))"
proof (induction results arbitrary: saved st)
  case Nil
  then show ?case by simp
next
  case (Cons r results)
  let ?u = "update_or_create (source_currency r) (exchanged_currency r) (valuation_date r)
              (rate_value r) st"
  have "unique_rows (snd ?u)" using Cons.prems by (rule update_or_create_preserves)
  then show ?case
    using Cons by (cases ?u) (auto split: sum.splits)
qed

lemma bulk_save_rates_unique:
  "unique_rows st \<Longrightarrow> unique_rows (snd (bulk_save_rates results st))"
  using bulk_save_loop_unique [of st results "[]"]
  by (auto simp add: bulk_save_rates_def unique_rows_def split: prod.splits sum.splits)

lemma get_exchange_rate_data_unique:
  "unique_rows st \<Longrightarrow> unique_rows (snd (get_exchange_rate_data s t d p st))"
proof -
  assume u: "unique_rows st"
  let ?f = "fetch_from_provider (upper s) (upper t) d p st"
  have "unique_rows (snd ?f)"
    using u fetch_from_provider_db(1) [of "upper s" "upper t" d p st]
    by (simp add: unique_rows_def)
  then show ?thesis
    using u save_rate_to_db_unique
    by (cases ?f) (auto simp add: get_exchange_rate_data_def Let_def split: sum.splits option.splits)
qed

lemma load_historical_rates_unique:
  assumes "unique_rows st"
  shows "unique_rows (snd (load_historical_rates s t a b p st))"
proof -
  let ?op = "adapter_get_historical_rates (upper s) (upper t) a b"
  let ?f = "if truthy_name p then
               (case Provider_get (the p) st of
                  Inl e \<Rightarrow> (Inl e, st)
                | Inr provider \<Rightarrow>
                    (case get_adapter_for_provider provider st of
                       (Inl e, st1) \<Rightarrow> (Inl e, st1)
                     | (Inr ad, st1) \<Rightarrow> run_operation ?op ad st1))
             else execute_with_failover ?op st"
  have "db_rates (snd ?f) = db_rates st"
  proof (cases "truthy_name p")
    case False
    then show ?thesis using execute_with_failover_db(1) [of ?op st] by simp
  next
    case True
    show ?thesis
    proof (cases "Provider_get (the p) st")
      case (Inl e)
      with True show ?thesis by simp
    next
      case (Inr provider)
      with True show ?thesis
        using named_provider_db [where provider = provider and st = st and operation = ?op]
        by simp
    qed
  qed
  then have u: "unique_rows (snd ?f)" using assms by (simp add: unique_rows_def)
  have "load_historical_rates s t a b p st
        = (case fst ?f of Inl e \<Rightarrow> (Inl e, snd ?f)
           | Inr results \<Rightarrow> bulk_save_rates results (snd ?f))"
    by (simp add: load_historical_rates_def Let_def case_prod_beta)
  then show ?thesis
    using u bulk_save_rates_unique by (cases "fst ?f") simp_all
qed

lemma floor_rat_numeral: "\<lfloor>(numeral a :: rat) / numeral b\<rfloor> = numeral a div numeral b"
  using floor_divide_of_int_eq [of "numeral a" "numeral b", where ?'a = rat] by simp

lemma round_half_even_int: "round_half_even (of_int n) = n"
  by (simp add: round_half_even_def)

lemma round_half_away_int: "round_half_away (of_int n) = n"
proof -
  have "\<lfloor>(of_int n :: rat) + 1 / 2\<rfloor> = n" by linarith
  moreover have "\<lfloor>- (of_int n :: rat) + 1 / 2\<rfloor> = - n" by linarith
  ultimately show ?thesis by (simp add: round_half_away_def)
qed

lemma column_store_exact:
  assumes "column_store adapts x = Inr v" "x * 1000000 = of_int n"
  shows "v = x"
proof -
  have "v = of_int n / 1000000"
    using assms
    by (cases adapts)
       (auto simp add: column_store_def Let_def round_half_even_int round_half_away_int
          split: if_splits)
  then show ?thesis using assms(2) by simp
qed

text \<open>
  Claim C3, as amended. \<open>_save_rate_to_db\<close> is an upsert on the key (source currency,
  exchanged currency, valuation date): in a table without duplicate keys, persisting
  two quotes of the same key one after the other (their currencies being known, the
  later rate being one the column can store) leaves exactly one record of that key, and
  it holds what the column stores for the later rate: that rate rounded to 6 decimal
  places, which is the rate itself when it has no more than 6. Every operation of the
  service that writes the rate table (\<open>_save_rate_to_db\<close>, \<open>_bulk_save_rates\<close>,
  \<open>get_exchange_rate_data\<close>, \<open>load_historical_rates\<close>) keeps the table free of
  duplicate keys.
\<close>

theorem persist_is_upsert:
  assumes uniq: "unique_rows st" and codes: "unique_codes st"
    and known: "source_currency r1 \<in> set (db_currencies st)"
               "exchanged_currency r1 \<in> set (db_currencies st)"
    and same: "source_currency r2 = source_currency r1"
              "exchanged_currency r2 = exchanged_currency r1"
              "valuation_date r2 = valuation_date r1"
    and store: "column_store (db_adapts_decimals st) (rate_value r2) = Inr v"
  shows "filter (matches_key (source_currency r1) (exchanged_currency r1) (valuation_date r1))
           (db_rates (snd (save_rate_to_db r2 (snd (save_rate_to_db r1 st)))))
         = [\<lparr>row_source = source_currency r1, row_target = exchanged_currency r1,
             row_date = valuation_date r1, row_rate = v\<rparr>]
    \<and> ((\<exists>n. rate_value r2 * 1000000 = of_int n) \<longrightarrow> v = rate_value r2)
    \<and> unique_rows (snd (save_rate_to_db r1 st))
    \<and> unique_rows (snd (save_rate_to_db r2 (snd (save_rate_to_db r1 st))))
    \<and> (\<forall>results. unique_rows (snd (bulk_save_rates results st)))
    \<and> (\<forall>s t d p. unique_rows (snd (get_exchange_rate_data s t d p st)))
    \<and> (\<forall>s t a b p. unique_rows (snd (load_historical_rates s t a b p st)))"
proof -
  let ?s = "source_currency r1" and ?t = "exchanged_currency r1" and ?d = "valuation_date r1"
  let ?st1 = "snd (save_rate_to_db r1 st)"
  from save_rate_to_db_frame [OF uniq, of r1]
  have st1: "unique_rows ?st1" "db_currencies ?st1 = db_currencies st"
    "db_adapts_decimals ?st1 = db_adapts_decimals st" by blast+
  have codes1: "unique_codes ?st1" using codes st1(2) by (simp add: unique_codes_def)
  have store1: "column_store (db_adapts_decimals ?st1) (rate_value r2) = Inr v"
    using store st1(3) by simp
  from update_or_create_stored [OF st1(1) store1, of ?s ?t ?d]
  obtain st2 where st2: "update_or_create ?s ?t ?d (rate_value r2) ?st1
      = (Inr \<lparr>row_source = ?s, row_target = ?t, row_date = ?d, row_rate = rate_value r2\<rparr>, st2)"
    "unique_rows st2"
    "filter (matches_key ?s ?t ?d) (db_rates st2)
     = [\<lparr>row_source = ?s, row_target = ?t, row_date = ?d, row_rate = v\<rparr>]"
    by blast
  have s2: "save_rate_to_db r2 ?st1
      = (Inr \<lparr>row_source = ?s, row_target = ?t, row_date = ?d, row_rate = rate_value r2\<rparr>, st2)"
    using st2(1) same known st1(2)
      Currency_get_known [OF codes1, of ?s] Currency_get_known [OF codes1, of ?t]
    by (simp add: save_rate_to_db_def)
  have exact: "(\<exists>n. rate_value r2 * 1000000 = of_int n) \<longrightarrow> v = rate_value r2"
    using column_store_exact [OF store] by blast
  show ?thesis
    using s2 st1(1) st2(2,3) exact bulk_save_rates_unique [OF uniq]
      get_exchange_rate_data_unique [OF uniq] load_historical_rates_unique [OF uniq]
    by simp
qed

lemma example_column_store:
  "column_store (db_adapts_decimals example_app) (rate_value second_quote) = Inr (11 / 10)"
  by (simp add: column_store_def round_half_away_def example_app_def second_quote_def Let_def
      floor_rat_numeral)

theorem persist_is_upsert_witness:
  "unique_rows example_app \<and> unique_codes example_app
   \<and> source_currency first_quote \<in> set (db_currencies example_app)
   \<and> exchanged_currency first_quote \<in> set (db_currencies example_app)
   \<and> source_currency second_quote = source_currency first_quote
   \<and> exchanged_currency second_quote = exchanged_currency first_quote
   \<and> valuation_date second_quote = valuation_date first_quote
   \<and> rate_value second_quote \<noteq> rate_value first_quote
   \<and> column_store (db_adapts_decimals example_app) (rate_value second_quote) = Inr (11 / 10)
   \<and> rate_value second_quote * 1000000 = of_int 1100000
   \<and> filter (matches_key ''EUR'' ''USD'' 738945)
         (db_rates (snd (save_rate_to_db second_quote (snd (save_rate_to_db first_quote example_app)))))
       = [\<lparr>row_source = ''EUR'', row_target = ''USD'', row_date = 738945, row_rate = 11 / 10\<rparr>]
   \<and> unique_rows (snd (save_rate_to_db second_quote (snd (save_rate_to_db first_quote example_app))))"
proof -
  have h: "unique_rows example_app" "unique_codes example_app"
    "source_currency first_quote \<in> set (db_currencies example_app)"
    "exchanged_currency first_quote \<in> set (db_currencies example_app)"
    "source_currency second_quote = source_currency first_quote"
    "exchanged_currency second_quote = exchanged_currency first_quote"
    "valuation_date second_quote = valuation_date first_quote"
    by (simp_all add: unique_rows_def unique_codes_def example_app_def first_quote_def
        second_quote_def)
  have v: "source_currency first_quote = ''EUR''" "exchanged_currency first_quote = ''USD''"
    "valuation_date first_quote = 738945" "rate_value second_quote = 11 / 10"
    "rate_value second_quote \<noteq> rate_value first_quote"
    "rate_value second_quote * 1000000 = of_int 1100000"
    by (simp_all add: first_quote_def second_quote_def)
  from persist_is_upsert [OF h example_column_store] show ?thesis
    using h v example_column_store by simp
qed

text \<open>
  Claim C3 as stated fails: the record does not hold the later rate when that rate has
  more than 6 decimal places. After a quote of rate 1.08, persisting a quote of rate
  1.0812345678 for the same key leaves one record, of rate 1.081235.
\<close>

theorem persist_rounds_rate:
  "source_currency long_quote = source_currency first_quote
   \<and> exchanged_currency long_quote = exchanged_currency first_quote
   \<and> valuation_date long_quote = valuation_date first_quote
   \<and> rate_value long_quote = 10812345678 / 10000000000
   \<and> db_rates (snd (save_rate_to_db long_quote (snd (save_rate_to_db first_quote example_app))))
     = [\<lparr>row_source = ''EUR'', row_target = ''USD'', row_date = 738945,
         row_rate = 1081235 / 1000000\<rparr>]"
  by (simp add: save_rate_to_db_def Currency_get_def update_or_create_def column_store_def
      round_half_away_def matches_key_def example_app_def first_quote_def long_quote_def Let_def
      floor_rat_numeral)

lemma failover_loop_result:
  assumes "failover_loop operation ps last_error calls st = ((Inr r, calls'), st')"
  shows "\<exists>ad w. fst (operation ad w) = Inr r"
  using assms
proof (induction ps arbitrary: last_error calls st)
  case Nil
  then show ?case by simp
next
  case (Cons p ps)
  obtain ra st1 where ga: "get_adapter_for_provider p st = (ra, st1)" by (metis prod.collapse)
  show ?case
  proof (cases ra)
    case (Inl e)
    with Cons ga show ?thesis by (auto split: if_splits)
  next
    case (Inr ad)
    obtain ro st2 where ro: "run_operation operation ad st1 = (ro, st2)" by (metis prod.collapse)
    then have op: "fst (operation ad (env st1)) = ro"
      by (auto simp add: run_operation_def case_prod_beta)
    show ?thesis
    proof (cases ro)
      case (Inr r')
      with Cons.prems ga \<open>ra = Inr ad\<close> ro have "r' = r" by auto
      with op Inr show ?thesis by blast
    next
      case (Inl e)
      with Cons ga \<open>ra = Inr ad\<close> ro show ?thesis by (auto split: if_splits)
    qed
  qed
qed

lemma execute_with_failover_result:
  assumes "execute_with_failover operation st = (Inr r, st')"
  shows "\<exists>ad w. fst (operation ad w) = Inr r"
proof -
  obtain calls where "execute_with_failover_calls operation st = ((Inr r, calls), st')"
    using assms by (auto simp add: execute_with_failover_def case_prod_beta)
       (metis prod.collapse)
  then show ?thesis
    using failover_loop_result
    by (auto simp add: execute_with_failover_calls_def Let_def split: if_splits)
qed

lemma mock_same_currency:
  "upper s = upper t \<Longrightarrow>
   Mock_get_exchange_rate a s t d w
   = (Inr \<lparr>source_currency = upper s, exchanged_currency = upper t, valuation_date = d,
           rate_value = 1, provider_name = Mock_name\<rparr>, w)"
  by (simp add: Mock_get_exchange_rate_def)

lemma beacon_same_currency:
  "upper s = upper t \<Longrightarrow>
   Beacon_get_exchange_rate s t d w
   = (Inr \<lparr>source_currency = upper s, exchanged_currency = upper t, valuation_date = d,
           rate_value = 1, provider_name = Beacon_name\<rparr>, w)"
  by (simp add: Beacon_get_exchange_rate_def Let_def)

lemma adapter_same_currency:
  "upper s = upper t \<Longrightarrow> fst (adapter_get_exchange_rate s t d ad w) = Inr q \<Longrightarrow> rate_value q = 1"
  by (cases ad) (auto simp add: adapter_get_exchange_rate_def mock_same_currency
      beacon_same_currency)

lemma fetch_same_currency:
  assumes "upper s = upper t" "fetch_from_provider s t d p st = (Inr q, st')"
  shows "rate_value q = 1"
proof (cases "truthy_name p")
  case False
  with assms(2) have "execute_with_failover (adapter_get_exchange_rate s t d) st = (Inr q, st')"
    by (simp add: fetch_from_provider_def Let_def)
  from execute_with_failover_result [OF this] adapter_same_currency [OF assms(1)]
  show ?thesis by blast
next
  case True
  show ?thesis
  proof (cases "Provider_get (the p) st")
    case (Inl e)
    with True assms(2) show ?thesis
      by (simp add: fetch_from_provider_def Let_def split: if_splits)
  next
    case (Inr provider)
    obtain ra st1 where ga: "get_adapter_for_provider provider st = (ra, st1)"
      by (metis prod.collapse)
    show ?thesis
    proof (cases ra)
      case (Inl e)
      with True Inr ga assms(2) show ?thesis by (simp add: fetch_from_provider_def Let_def)
    next
      case (Inr ad)
      with True \<open>Provider_get (the p) st = Inr provider\<close> ga assms(2)
      have "run_operation (adapter_get_exchange_rate s t d) ad st1 = (Inr q, st')"
        by (simp add: fetch_from_provider_def Let_def)
      then have "fst (adapter_get_exchange_rate s t d ad (env st1)) = Inr q"
        by (auto simp add: run_operation_def case_prod_beta)
      with adapter_same_currency [OF assms(1)] show ?thesis by blast
    qed
  qed
qed

lemma save_rate_to_db_rate:
  "save_rate_to_db q st = (Inr row, st') \<Longrightarrow> row_rate row = rate_value q"
  by (auto simp add: save_rate_to_db_def update_or_create_def Let_def
      split: sum.splits list.splits)

text \<open>
  Claim C4, as amended. For a pair whose codes are equal after upper-casing, and every
  date, \<open>get_exchange_rate\<close> of the synthetic generator and of the remote adapter
  return a quote of rate exactly 1 (without touching their surroundings). The
  resolution service does not look at the pair: \<open>get_exchange_rate_data\<close> returns the
  stored record when the table has one for the key, whatever its rate; when it has
  none and the call returns a record, that record has rate exactly 1.
\<close>

theorem same_currency_rate_is_one:
  assumes "upper s = upper t"
  shows "Mock_get_exchange_rate a s t d w
         = (Inr \<lparr>source_currency = upper s, exchanged_currency = upper t, valuation_date = d,
                 rate_value = 1, provider_name = Mock_name\<rparr>, w)
    \<and> Beacon_get_exchange_rate s t d w
      = (Inr \<lparr>source_currency = upper s, exchanged_currency = upper t, valuation_date = d,
              rate_value = 1, provider_name = Beacon_name\<rparr>, w)
    \<and> (\<forall>row st'. get_rate_from_db (upper s) (upper t) d st = Inr None
           \<and> get_exchange_rate_data s t d p st = (Inr row, st') \<longrightarrow> row_rate row = 1)
    \<and> (\<forall>r. get_rate_from_db (upper s) (upper t) d st = Inr (Some r) \<longrightarrow>
           get_exchange_rate_data s t d p st = (Inr r, st))"
proof -
  have uu: "upper (upper s) = upper (upper t)" using assms by simp
  have miss: "row_rate row = 1"
    if m: "get_rate_from_db (upper s) (upper t) d st = Inr None"
      and g: "get_exchange_rate_data s t d p st = (Inr row, st')" for row st'
  proof -
    obtain rf st1 where f: "fetch_from_provider (upper s) (upper t) d p st = (rf, st1)"
      by (metis prod.collapse)
    from g m f obtain q where q: "rf = Inr q" "save_rate_to_db q st1 = (Inr row, st')"
      by (cases rf) (simp_all add: get_exchange_rate_data_def Let_def)
    have "rate_value q = 1" using fetch_same_currency [OF uu] f q(1) by simp
    then show ?thesis using save_rate_to_db_rate [OF q(2)] by simp
  qed
  have hit: "get_exchange_rate_data s t d p st = (Inr r, st)"
    if "get_rate_from_db (upper s) (upper t) d st = Inr (Some r)" for r
    using that by (simp add: get_exchange_rate_data_def Let_def)
  show ?thesis
    using mock_same_currency [OF assms] beacon_same_currency [OF assms] miss hit by blast
qed

lemma example_resolve_same:
  "fst (get_exchange_rate_data ''eur'' ''EUR'' 738945 None example_app)
   = Inr \<lparr>row_source = ''EUR'', row_target = ''EUR'', row_date = 738945, row_rate = 1\<rparr>"
proof -
  let ?op = "adapter_get_exchange_rate ''EUR'' ''EUR'' 738945"
  let ?q = "\<lparr>source_currency = ''EUR'', exchanged_currency = ''EUR'', valuation_date = 738945,
            rate_value = 1, provider_name = ''CurrencyBeacon''\<rparr>"
  let ?st1 = "example_app\<lparr>adapters_cache :=
          (adapters_cache example_app)((adapter_path beacon_provider, default_config) \<mapsto> BeaconA)\<rparr>"
  have u: "upper ''eur'' = ''EUR''" "upper ''EUR'' = ''EUR''"
    by (simp_all add: upper_def upper_char_def)
  have miss: "get_rate_from_db ''EUR'' ''EUR'' 738945 example_app = Inr None"
    by (simp add: get_rate_from_db_def example_app_def)
  have r1: "run_operation ?op BeaconA ?st1 = (Inr ?q, ?st1)"
    by (simp add: run_operation_def adapter_get_exchange_rate_def Beacon_get_exchange_rate_def
        u Let_def Beacon_name_def)
  have f: "fetch_from_provider ''EUR'' ''EUR'' 738945 None example_app = (Inr ?q, ?st1)"
    by (simp add: fetch_from_provider_def truthy_name_def execute_with_failover_def
        execute_with_failover_calls_def example_active_providers example_get_beacon r1)
  have s: "fst (save_rate_to_db ?q ?st1)
           = Inr \<lparr>row_source = ''EUR'', row_target = ''EUR'', row_date = 738945, row_rate = 1\<rparr>"
    by (simp add: save_rate_to_db_def Currency_get_def update_or_create_def example_app_def
        column_store_def round_half_away_def Let_def)
  show ?thesis
    using miss f s
    by (simp add: get_exchange_rate_data_def u Let_def split: prod.splits)
qed

text \<open>
  Claim C4 as stated fails for the resolution service: with a record of rate 2 stored
  for EUR/EUR on the date, resolving that pair returns rate 2.
\<close>

theorem stored_same_currency_rate:
  "upper ''eur'' = upper ''EUR''
   \<and> fst (get_exchange_rate_data ''eur'' ''EUR'' 738945 None stored_app)
     = Inr \<lparr>row_source = ''EUR'', row_target = ''EUR'', row_date = 738945, row_rate = 2\<rparr>"
  by (simp add: get_exchange_rate_data_def get_rate_from_db_def matches_key_def stored_app_def
      example_app_def upper_def upper_char_def Let_def)

theorem same_currency_rate_is_one_witness:
  "upper ''eur'' = upper ''EUR''
   \<and> get_rate_from_db (upper ''eur'') (upper ''EUR'') 738945 example_app = Inr None
   \<and> fst (get_exchange_rate_data ''eur'' ''EUR'' 738945 None example_app)
     = Inr \<lparr>row_source = ''EUR'', row_target = ''EUR'', row_date = 738945, row_rate = 1\<rparr>
   \<and> row_rate (projr (fst (get_exchange_rate_data ''eur'' ''EUR'' 738945 None example_app))) = 1
   \<and> fst (Mock_get_exchange_rate default_mock ''eur'' ''EUR'' 738945 example_world)
     = Inr \<lparr>source_currency = ''EUR'', exchanged_currency = ''EUR'', valuation_date = 738945,
             rate_value = 1, provider_name = ''Mock Provider''\<rparr>
   \<and> fst (Beacon_get_exchange_rate ''eur'' ''EUR'' 738945 example_world)
     = Inr \<lparr>source_currency = ''EUR'', exchanged_currency = ''EUR'', valuation_date = 738945,
             rate_value = 1, provider_name = ''CurrencyBeacon''\<rparr>"
proof -
  have u: "upper ''eur'' = upper ''EUR''" "upper ''EUR'' = ''EUR''"
    by (simp_all add: upper_def upper_char_def)
  have miss: "get_rate_from_db (upper ''eur'') (upper ''EUR'') 738945 example_app = Inr None"
    by (simp add: get_rate_from_db_def example_app_def)
  note t = same_currency_rate_is_one [OF u(1), of default_mock 738945 example_world example_app None]
  obtain row st' where g: "get_exchange_rate_data ''eur'' ''EUR'' 738945 None example_app
                          = (Inr row, st')"
    using example_resolve_same by (metis prod.collapse)
  with t miss have "row_rate row = 1" by blast
  then show ?thesis
    using t u miss g example_resolve_same by (simp add: Mock_name_def Beacon_name_def)
qed

end
